theory Spec2Isabelle
  imports Complex_Main "HOL-Library.Word"
begin

unbundle bit_operations_syntax

section \<open>Floating point values\<close>

text \<open>
  The firmware computes with C \<open>float\<close>. A \<open>float\<close> is modelled as a real number or one
  of the three special values of IEEE 754. Finite arithmetic is exact: rounding to 24 bits
  and overflow to infinity are not modelled, and the two zeros are one value. The special
  values follow IEEE 754: a NaN operand gives NaN, every comparison with NaN is false,
  and a division by zero gives an infinity or NaN.
\<close>

datatype cfloat = Fin real | PInf | NInf | NaN

fun isinf :: "cfloat \<Rightarrow> bool" where
  "isinf PInf = True"
| "isinf NInf = True"
| "isinf _ = False"

fun isnan :: "cfloat \<Rightarrow> bool" where
  "isnan NaN = True"
| "isnan _ = False"

fun fabs :: "cfloat \<Rightarrow> cfloat" where
  "fabs (Fin x) = Fin \<bar>x\<bar>"
| "fabs PInf = PInf"
| "fabs NInf = PInf"
| "fabs NaN = NaN"

instantiation cfloat :: zero
begin
definition zero_cfloat :: cfloat where
  "zero_cfloat = Fin 0"
instance ..
end

instantiation cfloat :: uminus
begin
fun uminus_cfloat :: "cfloat \<Rightarrow> cfloat" where
  "uminus_cfloat (Fin x) = Fin (- x)"
| "uminus_cfloat PInf = NInf"
| "uminus_cfloat NInf = PInf"
| "uminus_cfloat NaN = NaN"
instance ..
end

instantiation cfloat :: plus
begin
fun plus_cfloat :: "cfloat \<Rightarrow> cfloat \<Rightarrow> cfloat" where
  "plus_cfloat (Fin x) (Fin y) = Fin (x + y)"
| "plus_cfloat NaN _ = NaN"
| "plus_cfloat _ NaN = NaN"
| "plus_cfloat PInf NInf = NaN"
| "plus_cfloat NInf PInf = NaN"
| "plus_cfloat PInf _ = PInf"
| "plus_cfloat _ PInf = PInf"
| "plus_cfloat NInf _ = NInf"
| "plus_cfloat _ NInf = NInf"
instance ..
end

instantiation cfloat :: minus
begin
definition minus_cfloat :: "cfloat \<Rightarrow> cfloat \<Rightarrow> cfloat" where
  "minus_cfloat a b = a + (- b)"
instance ..
end

text \<open>The sign of an infinite product or quotient; a zero counts as positive.\<close>

fun fnonneg :: "cfloat \<Rightarrow> bool" where
  "fnonneg (Fin x) = (0 \<le> x)"
| "fnonneg PInf = True"
| "fnonneg NInf = False"
| "fnonneg NaN = True"

definition signed_inf :: "bool \<Rightarrow> cfloat" where
  "signed_inf pos = (if pos then PInf else NInf)"

instantiation cfloat :: times
begin
fun times_cfloat :: "cfloat \<Rightarrow> cfloat \<Rightarrow> cfloat" where
  "times_cfloat (Fin x) (Fin y) = Fin (x * y)"
| "times_cfloat NaN _ = NaN"
| "times_cfloat _ NaN = NaN"
| "times_cfloat (Fin x) b = (if x = 0 then NaN else signed_inf ((0 \<le> x) = fnonneg b))"
| "times_cfloat a (Fin y) = (if y = 0 then NaN else signed_inf (fnonneg a = (0 \<le> y)))"
| "times_cfloat a b = signed_inf (fnonneg a = fnonneg b)"
instance ..
end

instantiation cfloat :: inverse
begin
fun divide_cfloat :: "cfloat \<Rightarrow> cfloat \<Rightarrow> cfloat" where
  "divide_cfloat (Fin x) (Fin y) =
     (if y = 0 then (if x = 0 then NaN else signed_inf (0 \<le> x)) else Fin (x / y))"
| "divide_cfloat NaN _ = NaN"
| "divide_cfloat _ NaN = NaN"
| "divide_cfloat (Fin x) _ = Fin 0"
| "divide_cfloat a (Fin y) = signed_inf (fnonneg a = (0 \<le> y))"
| "divide_cfloat _ _ = NaN"
definition inverse_cfloat :: "cfloat \<Rightarrow> cfloat" where
  "inverse_cfloat a = divide (Fin 1) a"
instance ..
end

instantiation cfloat :: ord
begin
fun less_cfloat :: "cfloat \<Rightarrow> cfloat \<Rightarrow> bool" where
  "less_cfloat (Fin x) (Fin y) = (x < y)"
| "less_cfloat NaN _ = False"
| "less_cfloat _ NaN = False"
| "less_cfloat PInf _ = False"
| "less_cfloat _ NInf = False"
| "less_cfloat _ _ = True"
fun less_eq_cfloat :: "cfloat \<Rightarrow> cfloat \<Rightarrow> bool" where
  "less_eq_cfloat (Fin x) (Fin y) = (x \<le> y)"
| "less_eq_cfloat NaN _ = False"
| "less_eq_cfloat _ NaN = False"
| "less_eq_cfloat NInf _ = True"
| "less_eq_cfloat _ PInf = True"
| "less_eq_cfloat _ _ = False"
instance ..
end

fun ceil :: "cfloat \<Rightarrow> cfloat" where
  "ceil (Fin x) = Fin (of_int \<lceil>x\<rceil>)"
| "ceil f = f"

text \<open>\<open>trunc\<close> of the C library rounds towards zero, \<open>round\<close> rounds halves away from zero.\<close>

definition trunc_real :: "real \<Rightarrow> int" where
  "trunc_real x = (if 0 \<le> x then \<lfloor>x\<rfloor> else \<lceil>x\<rceil>)"

definition round_real :: "real \<Rightarrow> int" where
  "round_real x = (if 0 \<le> x then \<lfloor>x + 1 / 2\<rfloor> else \<lceil>x - 1 / 2\<rceil>)"

fun c_round :: "cfloat \<Rightarrow> cfloat" where
  "c_round (Fin x) = Fin (of_int (round_real x))"
| "c_round f = f"

text \<open>
  A conversion from \<open>float\<close> to an integer type truncates towards zero. When the truncated
  value does not fit the integer type (or the operand is infinite or NaN) C++ leaves the
  result undefined; the model then takes the result from the function \<open>ub\<close>, which stands
  for whatever the platform delivers.
\<close>

definition float_to_int32 :: "(cfloat \<Rightarrow> 32 word) \<Rightarrow> cfloat \<Rightarrow> 32 word" where
  "float_to_int32 ub f =
     (case f of
        Fin x \<Rightarrow> if - (2 ^ 31) \<le> trunc_real x \<and> trunc_real x < 2 ^ 31
                 then word_of_int (trunc_real x) else ub f
      | _ \<Rightarrow> ub f)"

definition float_to_uint32 :: "(cfloat \<Rightarrow> 32 word) \<Rightarrow> cfloat \<Rightarrow> 32 word" where
  "float_to_uint32 ub f =
     (case f of
        Fin x \<Rightarrow> if 0 \<le> trunc_real x \<and> trunc_real x < 2 ^ 32
                 then word_of_int (trunc_real x) else ub f
      | _ \<Rightarrow> ub f)"

definition int32_to_float :: "32 word \<Rightarrow> cfloat" where
  "int32_to_float w = Fin (of_int (sint w))"

section \<open>Status codes and build constants\<close>

datatype stat_t =
    STAT_OK | STAT_EAGAIN | STAT_NOOP | STAT_COMPLETE
  | STAT_INTERNAL_ERROR
  | STAT_PREP_LINE_MOVE_TIME_IS_INFINITE | STAT_PREP_LINE_MOVE_TIME_IS_NAN
  | STAT_CHECKSUM_MATCH_FAILED | STAT_MISSING_LINE_NUMBER_WITH_CHECKSUM
  | STAT_INVALID_OR_MALFORMED_COMMAND | STAT_BAD_NUMBER_FORMAT
  | STAT_GCODE_COMMAND_UNSUPPORTED | STAT_MCODE_COMMAND_UNSUPPORTED
  | STAT_MODAL_GROUP_VIOLATION | STAT_GCODE_AXIS_IS_MISSING
  | STAT_OTHER nat

text \<open>
  The constants and macros of \<open>stepper.h\<close>, \<open>hardware.h\<close> and \<open>util.h\<close> are used by the
  code but their headers are not part of the sources at hand. They are the fields of
  \<open>config\<close>, and every function of the model takes them as a parameter. The two \<open>ub\<close>
  fields give the platform's result of an out-of-range conversion.
\<close>

record config =
  FREQUENCY_DDA :: real
  FREQUENCY_DWELL :: real
  DDA_SUBSTEPS :: "32 word"
  MOTORS :: nat
  DIRECTION_CW :: "8 word"
  DIRECTION_CCW :: "8 word"
  STEP_CORRECTION_THRESHOLD :: cfloat
  STEP_CORRECTION_FACTOR :: cfloat
  STEP_CORRECTION_MAX :: cfloat
  STEP_CORRECTION_HOLDOFF :: "32 word"
  fp_ZERO :: "cfloat \<Rightarrow> bool"
  fp_NOT_ZERO :: "cfloat \<Rightarrow> bool"
  min3 :: "cfloat \<Rightarrow> cfloat \<Rightarrow> cfloat \<Rightarrow> cfloat"
  max3 :: "cfloat \<Rightarrow> cfloat \<Rightarrow> cfloat \<Rightarrow> cfloat"
  ub_int32 :: "cfloat \<Rightarrow> 32 word"
  ub_uint32 :: "cfloat \<Rightarrow> 32 word"

section \<open>Stepper data (stepper.cpp)\<close>

datatype prepBufferState = PREP_BUFFER_OWNED_BY_LOADER | PREP_BUFFER_OWNED_BY_EXEC

datatype blockType =
    BLOCK_TYPE_NULL | BLOCK_TYPE_ALINE | BLOCK_TYPE_COMMAND | BLOCK_TYPE_DWELL
  | BLOCK_TYPE_JSON_WAIT | BLOCK_TYPE_TOOL | BLOCK_TYPE_SPINDLE_SPEED
  | BLOCK_TYPE_STOP | BLOCK_TYPE_END

record stPrepMotor =
  pre_substep_increment :: "32 word"
  direction :: "8 word"
  prev_direction :: "8 word"
  step_sign :: int
  correction_holdoff :: "32 word"
  corrected_steps :: cfloat
  prev_segment_time :: cfloat
  accumulator_correction :: cfloat
  accumulator_correction_flag :: bool

record stPrepSingleton =
  pre_buffer_state :: prepBufferState
  pre_bf :: nat
  pre_block_type :: blockType
  dda_ticks :: "32 word"
  pre_dda_ticks_X_substeps :: "32 word"
  dwell_ticks :: "32 word"
  pre_mot :: "nat \<Rightarrow> stPrepMotor"

record stRunMotor =
  substep_increment :: "32 word"
  substep_accumulator :: "32 word"

record stRunSingleton =
  dda_ticks_downcount :: "32 word"
  dwell_ticks_downcount :: "32 word"
  dda_ticks_X_substeps :: "32 word"
  mot :: "nat \<Rightarrow> stRunMotor"

text \<open>The polarity setting of each motor, from \<open>st_cfg\<close>.\<close>

record stConfig =
  polarity :: "nat \<Rightarrow> 8 word"

section \<open>Planner data (planner.h)\<close>

datatype bufferState =
    MP_BUFFER_EMPTY | MP_BUFFER_INITIALIZING | MP_BUFFER_NOT_PLANNED
  | MP_BUFFER_BACK_PLANNED | MP_BUFFER_FULLY_PLANNED | MP_BUFFER_RUNNING
  | MP_BUFFER_POLAND | MP_BUFFER_UKRAINE

text \<open>The values of the enumerations, for the comparisons the code makes with them.\<close>

fun bufferState_val :: "bufferState \<Rightarrow> nat" where
  "bufferState_val MP_BUFFER_EMPTY = 0"
| "bufferState_val MP_BUFFER_INITIALIZING = 1"
| "bufferState_val MP_BUFFER_NOT_PLANNED = 2"
| "bufferState_val MP_BUFFER_BACK_PLANNED = 3"
| "bufferState_val MP_BUFFER_FULLY_PLANNED = 4"
| "bufferState_val MP_BUFFER_RUNNING = 5"
| "bufferState_val MP_BUFFER_POLAND = 6"
| "bufferState_val MP_BUFFER_UKRAINE = 7"

fun blockType_val :: "blockType \<Rightarrow> nat" where
  "blockType_val BLOCK_TYPE_NULL = 0"
| "blockType_val BLOCK_TYPE_ALINE = 1"
| "blockType_val BLOCK_TYPE_COMMAND = 2"
| "blockType_val BLOCK_TYPE_DWELL = 3"
| "blockType_val BLOCK_TYPE_JSON_WAIT = 4"
| "blockType_val BLOCK_TYPE_TOOL = 5"
| "blockType_val BLOCK_TYPE_SPINDLE_SPEED = 6"
| "blockType_val BLOCK_TYPE_STOP = 7"
| "blockType_val BLOCK_TYPE_END = 8"

datatype blockState = BLOCK_INACTIVE | BLOCK_INITIAL_ACTION | BLOCK_ACTIVE

datatype moveSection = SECTION_HEAD | SECTION_BODY | SECTION_TAIL

datatype sectionState = SECTION_OFF | SECTION_NEW | SECTION_RUNNING

datatype blockHint =
    NO_HINT | COMMAND_BLOCK | PERFECT_ACCELERATION | PERFECT_DECELERATION
  | PERFECT_CRUISE | MIXED_ACCELERATION | MIXED_DECELERATION
  | ZERO_VELOCITY | ZERO_BUMP | SYMMETRIC_BUMP | ASYMMETRIC_BUMP

text \<open>
  The callback \<open>bf_func\<close> of a buffer is a function pointer: null, \<open>mp_exec_aline\<close>, or
  one of the callbacks of commands and dwells, which are defined outside the sources at
  hand and are told apart by a number.
\<close>

datatype bf_func_t = BF_NULL | BF_MP_EXEC_ALINE | BF_CALLBACK nat

text \<open>
  Of the G-code model state \<open>GCodeState_t\<close>, declared outside the sources at hand, the
  executor uses the target and the compensation term of the Kahan summation.
\<close>

record GCodeState =
  target :: "nat \<Rightarrow> cfloat"
  target_comp :: "nat \<Rightarrow> cfloat"

record mpBuf =
  pv :: nat
  nx :: nat
  buffer_number :: nat
  bf_func :: bf_func_t
  buffer_state :: bufferState
  block_type :: blockType
  block_state :: blockState
  hint :: blockHint
  bf_unit :: "nat \<Rightarrow> cfloat"
  axis_flags :: "nat \<Rightarrow> bool"
  plannable :: bool
  bf_length :: cfloat
  block_time :: cfloat
  override_factor :: cfloat
  cruise_velocity :: cfloat
  exit_velocity :: cfloat
  cruise_vset :: cfloat
  cruise_vmax :: cfloat
  exit_vmax :: cfloat
  absolute_vmax :: cfloat
  junction_vmax :: cfloat
  jerk :: cfloat
  jerk_sq :: cfloat
  recip_jerk :: cfloat
  sqrt_j :: cfloat
  q_recip_2_sqrt_j :: cfloat
  bf_gm :: GCodeState

record mpBlockRuntimeBuf =
  rb_nx :: nat
  head_length :: cfloat
  body_length :: cfloat
  tail_length :: cfloat
  head_time :: cfloat
  body_time :: cfloat
  tail_time :: cfloat
  rb_cruise_velocity :: cfloat
  rb_exit_velocity :: cfloat

record mpPlannerRuntime =
  mr_block_state :: blockState
  mr_section :: moveSection
  section_state :: sectionState
  out_of_band_dwell_flag :: bool
  out_of_band_dwell_seconds :: cfloat
  mr_unit :: "nat \<Rightarrow> cfloat"
  mr_axis_flags :: "nat \<Rightarrow> bool"
  mr_target :: "nat \<Rightarrow> cfloat"
  position :: "nat \<Rightarrow> cfloat"
  waypoint :: "moveSection \<Rightarrow> nat \<Rightarrow> cfloat"
  target_steps :: "nat \<Rightarrow> cfloat"
  position_steps :: "nat \<Rightarrow> cfloat"
  commanded_steps :: "nat \<Rightarrow> cfloat"
  encoder_steps :: "nat \<Rightarrow> cfloat"
  following_error :: "nat \<Rightarrow> cfloat"
  mr_r :: nat
  mr_p :: nat
  mr_block :: "nat \<Rightarrow> mpBlockRuntimeBuf"
  plan_bf :: nat
  run_bf :: nat
  entry_velocity :: cfloat
  segments :: cfloat
  segment_count :: "32 word"
  segment_velocity :: cfloat
  segment_time :: cfloat
  forward_diff_1 :: cfloat
  forward_diff_2 :: cfloat
  forward_diff_3 :: cfloat
  forward_diff_4 :: cfloat
  forward_diff_5 :: cfloat
  mr_gm :: GCodeState

section \<open>The machine state\<close>

text \<open>
  Modelled from the spec: the states of the canonical machine that the executor reads and
  writes (\<open>canonical_machine.h\<close> is not under the sources at hand). A feedhold passes
  through OFF, SYNC, DECEL_CONTINUE or DECEL_TO_ZERO, DECEL_COMPLETE, MOTION_STOPPING and
  MOTION_STOPPED, in this order; the states of a hold at rest follow MOTION_STOPPED.
\<close>

datatype cmFeedholdState =
    FEEDHOLD_OFF | FEEDHOLD_REQUESTED | FEEDHOLD_SYNC | FEEDHOLD_DECEL_CONTINUE
  | FEEDHOLD_DECEL_TO_ZERO | FEEDHOLD_DECEL_COMPLETE | FEEDHOLD_MOTION_STOPPING
  | FEEDHOLD_MOTION_STOPPED | FEEDHOLD_HOLD_ACTIONS_PENDING
  | FEEDHOLD_HOLD_ACTIONS_COMPLETE | FEEDHOLD_HOLD
  | FEEDHOLD_EXIT_ACTIONS_PENDING | FEEDHOLD_EXIT_ACTIONS_COMPLETE

fun cmFeedholdState_val :: "cmFeedholdState \<Rightarrow> nat" where
  "cmFeedholdState_val FEEDHOLD_OFF = 0"
| "cmFeedholdState_val FEEDHOLD_REQUESTED = 1"
| "cmFeedholdState_val FEEDHOLD_SYNC = 2"
| "cmFeedholdState_val FEEDHOLD_DECEL_CONTINUE = 3"
| "cmFeedholdState_val FEEDHOLD_DECEL_TO_ZERO = 4"
| "cmFeedholdState_val FEEDHOLD_DECEL_COMPLETE = 5"
| "cmFeedholdState_val FEEDHOLD_MOTION_STOPPING = 6"
| "cmFeedholdState_val FEEDHOLD_MOTION_STOPPED = 7"
| "cmFeedholdState_val FEEDHOLD_HOLD_ACTIONS_PENDING = 8"
| "cmFeedholdState_val FEEDHOLD_HOLD_ACTIONS_COMPLETE = 9"
| "cmFeedholdState_val FEEDHOLD_HOLD = 10"
| "cmFeedholdState_val FEEDHOLD_EXIT_ACTIONS_PENDING = 11"
| "cmFeedholdState_val FEEDHOLD_EXIT_ACTIONS_COMPLETE = 12"

datatype cmFeedholdType =
    FEEDHOLD_TYPE_HOLD | FEEDHOLD_TYPE_ACTIONS | FEEDHOLD_TYPE_SKIP | FEEDHOLD_TYPE_SCRAM

datatype cmMachineState =
    MACHINE_INITIALIZING | MACHINE_READY | MACHINE_ALARM | MACHINE_PROGRAM_STOP
  | MACHINE_PROGRAM_END | MACHINE_CYCLE | MACHINE_INTERLOCK | MACHINE_SHUTDOWN
  | MACHINE_PANIC

datatype cmMotionState = MOTION_STOP | MOTION_PLANNING | MOTION_RUN

record cmState =
  machine_state :: cmMachineState
  motion_state :: cmMotionState
  hold_state :: cmFeedholdState
  hold_type :: cmFeedholdType

text \<open>
  The calls that hand a segment, a dwell, a command or nothing to the loader. The machine
  state keeps the list of the calls made, in order, so that they can be counted.
\<close>

datatype prep_call = PREP_LINE | PREP_NULL | PREP_COMMAND | PREP_DWELL

text \<open>
  One planner context with its runtime: the globals \<open>st_cfg\<close>, \<open>st_pre\<close>, \<open>st_run\<close>,
  \<open>cm\<close>, \<open>mr\<close> and \<open>mp\<close>. A pointer to a planner buffer is its index in the pool
  \<open>bufs\<close>. The timers and the SysTick event are the flags that the code sets on them.
\<close>

record machine =
  st_cfg :: stConfig
  st_pre :: stPrepSingleton
  st_run :: stRunSingleton
  cm :: cmState
  mr :: mpPlannerRuntime
  bufs :: "mpBuf list"
  q_r :: nat
  q_w :: nat
  buffers_available :: nat
  mp_position :: "nat \<Rightarrow> cfloat"
  run_time_remaining :: cfloat
  dda_timer_running :: bool
  dwell_event_registered :: bool
  exec_timer_pending :: bool
  fwd_plan_timer_pending :: bool
  prep_calls :: "prep_call list"

text \<open>
  The functions that the code calls and that are defined outside the sources at hand
  (planner.cpp, plan_line.cpp, plan_zoid.cpp, kinematics, encoders, canonical machine).
  They are parameters of the model, next to the constants.
\<close>

record env = config +
  AXES :: nat
  EPSILON2 :: cfloat
  EPSILON4 :: cfloat
  uSec :: "cfloat \<Rightarrow> cfloat"
  mp_get_run_buffer :: "machine \<Rightarrow> nat option"
  mp_runtime_is_idle :: "machine \<Rightarrow> bool"
  mp_runtime_command :: "nat \<Rightarrow> machine \<Rightarrow> machine"
  bf_callback :: "nat \<Rightarrow> nat \<Rightarrow> machine \<Rightarrow> stat_t \<times> machine"
  mp_calculate_ramps ::
    "mpBlockRuntimeBuf \<Rightarrow> mpBuf \<Rightarrow> cfloat \<Rightarrow> mpBlockRuntimeBuf \<times> mpBuf"
  mp_get_target_length :: "cfloat \<Rightarrow> cfloat \<Rightarrow> mpBuf \<Rightarrow> cfloat"
  mp_get_decel_velocity :: "cfloat \<Rightarrow> cfloat \<Rightarrow> mpBuf \<Rightarrow> cfloat"
  get_axis_vector_length :: "(nat \<Rightarrow> cfloat) \<Rightarrow> (nat \<Rightarrow> cfloat) \<Rightarrow> cfloat"
  kn_inverse_kinematics :: "(nat \<Rightarrow> cfloat) \<Rightarrow> (nat \<Rightarrow> cfloat) \<Rightarrow> (nat \<Rightarrow> cfloat)"
  en_read_encoder :: "nat \<Rightarrow> cfloat"
  cm_cycle_end :: "machine \<Rightarrow> machine"
  cm_set_motion_state :: "cmMotionState \<Rightarrow> machine \<Rightarrow> machine"
  mp_free_run_buffer :: "machine \<Rightarrow> bool \<times> machine"
  mp_planner_time_accounting :: "machine \<Rightarrow> machine"

text \<open>
  Modelled from the spec: \<open>cm_panic\<close> of the canonical machine, which is not under the
  sources at hand. A panic latches the machine into alarm and halts the DDA timer; the
  call returns the status it was given.
\<close>

definition cm_panic :: "stat_t \<Rightarrow> machine \<Rightarrow> stat_t \<times> machine" where
  "cm_panic status s =
     (status, s\<lparr>cm := (cm s)\<lparr>machine_state := MACHINE_PANIC\<rparr>, dda_timer_running := False\<rparr>)"

section \<open>Stepper functions (stepper.cpp)\<close>

definition st_runtime_isbusy :: "machine \<Rightarrow> bool" where
  "st_runtime_isbusy s =
     (dda_ticks_downcount (st_run s) \<noteq> 0 \<or> dwell_ticks_downcount (st_run s) \<noteq> 0)"

definition st_request_exec_move :: "machine \<Rightarrow> machine" where
  "st_request_exec_move s =
     (if pre_buffer_state (st_pre s) = PREP_BUFFER_OWNED_BY_EXEC
      then s\<lparr>exec_timer_pending := True\<rparr> else s)"

definition st_request_forward_plan :: "machine \<Rightarrow> machine" where
  "st_request_forward_plan s = s\<lparr>fwd_plan_timer_pending := True\<rparr>"

definition upd_pre_mot :: "nat \<Rightarrow> (stPrepMotor \<Rightarrow> stPrepMotor) \<Rightarrow> machine \<Rightarrow> machine" where
  "upd_pre_mot m f s =
     s\<lparr>st_pre := (st_pre s)\<lparr>pre_mot := (pre_mot (st_pre s))(m := f (pre_mot (st_pre s) m))\<rparr>\<rparr>"

definition upd_run_mot :: "nat \<Rightarrow> (stRunMotor \<Rightarrow> stRunMotor) \<Rightarrow> machine \<Rightarrow> machine" where
  "upd_run_mot m f s =
     s\<lparr>st_run := (st_run s)\<lparr>mot := (mot (st_run s))(m := f (mot (st_run s) m))\<rparr>\<rparr>"

text \<open>
  The block that \<open>_load_move\<close> repeats for each motor. The calls on the motor drivers and
  on the encoders act on the hardware only and are left out.
\<close>

definition load_motor :: "'a config_scheme \<Rightarrow> nat \<Rightarrow> machine \<Rightarrow> machine" where
  "load_motor cfg m s =
     (let s1 = upd_run_mot m
                 (\<lambda>rm. rm\<lparr>substep_increment := pre_substep_increment (pre_mot (st_pre s) m)\<rparr>) s
      in if substep_increment (mot (st_run s1) m) \<noteq> 0 then
           let s2 = (if accumulator_correction_flag (pre_mot (st_pre s1) m) then
                       upd_run_mot m
                         (\<lambda>rm. rm\<lparr>substep_accumulator :=
                            float_to_int32 (ub_int32 cfg)
                              (int32_to_float (substep_accumulator rm)
                                 * accumulator_correction (pre_mot (st_pre s1) m))\<rparr>)
                         (upd_pre_mot m (\<lambda>pm. pm\<lparr>accumulator_correction_flag := False\<rparr>) s1)
                     else s1)
           in if direction (pre_mot (st_pre s2) m) \<noteq> prev_direction (pre_mot (st_pre s2) m) then
                upd_run_mot m
                  (\<lambda>rm. rm\<lparr>substep_accumulator :=
                     - (dda_ticks_X_substeps (st_run s2) + substep_accumulator rm)\<rparr>)
                  (upd_pre_mot m (\<lambda>pm. pm\<lparr>prev_direction := direction pm\<rparr>) s2)
              else s2
         else s1)"

definition load_move :: "env \<Rightarrow> machine \<Rightarrow> machine" where
  "load_move env s =
     (if st_runtime_isbusy s then s
      else if pre_buffer_state (st_pre s) \<noteq> PREP_BUFFER_OWNED_BY_LOADER then s
      else
        let s1 =
          (if pre_block_type (st_pre s) = BLOCK_TYPE_ALINE then
             (fold (load_motor env) [0..<MOTORS env]
                (s\<lparr>st_run := (st_run s)
                   \<lparr>dda_ticks_downcount := dda_ticks (st_pre s),
                    dda_ticks_X_substeps := pre_dda_ticks_X_substeps (st_pre s)\<rparr>\<rparr>))
             \<lparr>dda_timer_running := True\<rparr>
           else if pre_block_type (st_pre s) = BLOCK_TYPE_DWELL then
             s\<lparr>st_run := (st_run s)\<lparr>dwell_ticks_downcount := dwell_ticks (st_pre s)\<rparr>,
               dwell_event_registered := True\<rparr>
           else if pre_block_type (st_pre s) = BLOCK_TYPE_COMMAND then
             mp_runtime_command env (pre_bf (st_pre s)) s
           else s)
        in st_request_exec_move
             (s1\<lparr>st_pre := (st_pre s1)
                \<lparr>pre_block_type := BLOCK_TYPE_NULL,
                 pre_buffer_state := PREP_BUFFER_OWNED_BY_EXEC\<rparr>\<rparr>))"

definition st_request_load_move :: "env \<Rightarrow> machine \<Rightarrow> machine" where
  "st_request_load_move env s =
     (if st_runtime_isbusy s then s
      else if pre_buffer_state (st_pre s) = PREP_BUFFER_OWNED_BY_LOADER then load_move env s
      else s)"

text \<open>
  The SysTick event that counts a dwell down, and the SysTick interrupt, which calls the
  event as long as it is registered.
\<close>

definition dwell_systick_event :: "env \<Rightarrow> machine \<Rightarrow> machine" where
  "dwell_systick_event env s =
     (let s1 = s\<lparr>st_run := (st_run s)
                  \<lparr>dwell_ticks_downcount := dwell_ticks_downcount (st_run s) - 1\<rparr>\<rparr>
      in if dwell_ticks_downcount (st_run s1) = 0
         then load_move env (s1\<lparr>dwell_event_registered := False\<rparr>)
         else s1)"

definition systick :: "env \<Rightarrow> machine \<Rightarrow> machine" where
  "systick env s = (if dwell_event_registered s then dwell_systick_event env s else s)"

text \<open>The body of the loop of \<open>st_prep_line\<close> over the motors.\<close>

definition st_prep_line_motor ::
  "'a config_scheme \<Rightarrow> stConfig \<Rightarrow> cfloat \<Rightarrow> (nat \<Rightarrow> cfloat) \<Rightarrow> nat
     \<Rightarrow> stPrepSingleton \<times> (nat \<Rightarrow> cfloat) \<Rightarrow> stPrepSingleton \<times> (nat \<Rightarrow> cfloat)" where
  "st_prep_line_motor cfg stc seg_time following_err motor =
     (\<lambda>(pre, travel_steps).
        if fp_ZERO cfg (travel_steps motor) then
          (pre\<lparr>pre_mot := (pre_mot pre)
              (motor := (pre_mot pre motor)\<lparr>pre_substep_increment := 0\<rparr>)\<rparr>, travel_steps)
        else
          let m0 = pre_mot pre motor;
              m1 = (if 0 \<le> travel_steps motor
                    then m0\<lparr>direction := DIRECTION_CW cfg XOR polarity stc motor, step_sign := 1\<rparr>
                    else m0\<lparr>direction := DIRECTION_CCW cfg XOR polarity stc motor,
                            step_sign := - 1\<rparr>);
              m2 = (if Fin 0.0000001 < fabs (seg_time - prev_segment_time m1) then
                      (if fp_NOT_ZERO cfg (prev_segment_time m1)
                       then m1\<lparr>accumulator_correction_flag := True,
                               accumulator_correction := seg_time / prev_segment_time m1\<rparr>
                       else m1)\<lparr>prev_segment_time := seg_time\<rparr>
                    else m1);
              m3 = m2\<lparr>correction_holdoff := correction_holdoff m2 - 1\<rparr>;
              nudge = (sint (correction_holdoff m3) < 0
                       \<and> STEP_CORRECTION_THRESHOLD cfg < fabs (following_err motor));
              c0 = following_err motor * STEP_CORRECTION_FACTOR cfg;
              correction_steps =
                (if 0 < c0
                 then min3 cfg c0 (fabs (travel_steps motor)) (STEP_CORRECTION_MAX cfg)
                 else max3 cfg c0 (- fabs (travel_steps motor)) (- STEP_CORRECTION_MAX cfg));
              m4 = (if nudge
                    then m3\<lparr>correction_holdoff := STEP_CORRECTION_HOLDOFF cfg,
                            corrected_steps := corrected_steps m3 + correction_steps\<rparr>
                    else m3);
              travel = (if nudge then travel_steps motor - correction_steps
                        else travel_steps motor);
              m5 = m4\<lparr>pre_substep_increment :=
                        float_to_uint32 (ub_uint32 cfg)
                          (c_round (fabs (travel * int32_to_float (DDA_SUBSTEPS cfg))))\<rparr>
          in (pre\<lparr>pre_mot := (pre_mot pre)(motor := m5)\<rparr>, travel_steps(motor := travel)))"

definition st_prep_line ::
  "env \<Rightarrow> (nat \<Rightarrow> cfloat) \<Rightarrow> (nat \<Rightarrow> cfloat) \<Rightarrow> cfloat \<Rightarrow> machine \<Rightarrow> stat_t \<times> machine" where
  "st_prep_line env travel_steps following_err seg_time s0 =
     (let s = s0\<lparr>prep_calls := prep_calls s0 @ [PREP_LINE]\<rparr> in
      if pre_buffer_state (st_pre s) \<noteq> PREP_BUFFER_OWNED_BY_EXEC
        then cm_panic STAT_INTERNAL_ERROR s
      else if isinf seg_time then cm_panic STAT_PREP_LINE_MOVE_TIME_IS_INFINITE s
      else if isnan seg_time then cm_panic STAT_PREP_LINE_MOVE_TIME_IS_NAN s
      else
        let ticks = float_to_int32 (ub_int32 env)
                      (seg_time * Fin 60 * Fin (FREQUENCY_DDA env));
            pre1 = (st_pre s)\<lparr>dda_ticks := ticks,
                              pre_dda_ticks_X_substeps := ticks * DDA_SUBSTEPS env\<rparr>;
            pre2 = fst (fold (st_prep_line_motor env (st_cfg s) seg_time following_err)
                          [0..<MOTORS env] (pre1, travel_steps))
        in (STAT_OK,
            s\<lparr>st_pre := pre2\<lparr>pre_block_type := BLOCK_TYPE_ALINE,
                              pre_buffer_state := PREP_BUFFER_OWNED_BY_LOADER\<rparr>\<rparr>))"

definition st_prep_null :: "machine \<Rightarrow> machine" where
  "st_prep_null s =
     s\<lparr>st_pre := (st_pre s)\<lparr>pre_block_type := BLOCK_TYPE_NULL,
                             pre_buffer_state := PREP_BUFFER_OWNED_BY_EXEC\<rparr>,
       prep_calls := prep_calls s @ [PREP_NULL]\<rparr>"

definition st_prep_command :: "nat \<Rightarrow> machine \<Rightarrow> machine" where
  "st_prep_command bf s =
     s\<lparr>st_pre := (st_pre s)\<lparr>pre_block_type := BLOCK_TYPE_COMMAND, pre_bf := bf,
                             pre_buffer_state := PREP_BUFFER_OWNED_BY_LOADER\<rparr>,
       prep_calls := prep_calls s @ [PREP_COMMAND]\<rparr>"

definition st_prep_dwell :: "'a config_scheme \<Rightarrow> cfloat \<Rightarrow> machine \<Rightarrow> machine" where
  "st_prep_dwell cfg microseconds s =
     s\<lparr>st_pre := (st_pre s)
          \<lparr>pre_block_type := BLOCK_TYPE_DWELL,
           dwell_ticks :=
             max (float_to_uint32 (ub_uint32 cfg)
                    ((microseconds / Fin 1000000) * Fin (FREQUENCY_DWELL cfg))) 1,
           pre_buffer_state := PREP_BUFFER_OWNED_BY_LOADER\<rparr>,
       prep_calls := prep_calls s @ [PREP_DWELL]\<rparr>"

definition st_prep_out_of_band_dwell :: "env \<Rightarrow> cfloat \<Rightarrow> machine \<Rightarrow> machine" where
  "st_prep_out_of_band_dwell env microseconds s =
     (if \<not> st_runtime_isbusy s then
        let s1 = st_prep_dwell env microseconds s
        in st_request_load_move env
             (s1\<lparr>st_pre := (st_pre s1)\<lparr>pre_buffer_state := PREP_BUFFER_OWNED_BY_LOADER\<rparr>\<rparr>)
      else s)"

section \<open>The runtime executor (plan_exec.cpp)\<close>

text \<open>
  The segment times of planner.h. \<open>MIN_SEGMENT_MS\<close> is the value that planner.h gives when
  the board does not set another one.
\<close>

definition MIN_SEGMENT_MS :: real where
  "MIN_SEGMENT_MS = 3 / 4"

definition NOM_SEGMENT_MS :: real where
  "NOM_SEGMENT_MS = MIN_SEGMENT_MS * 2"

definition NOM_SEGMENT_USEC :: cfloat where
  "NOM_SEGMENT_USEC = Fin (NOM_SEGMENT_MS * 1000)"

definition MIN_SEGMENT_TIME :: cfloat where
  "MIN_SEGMENT_TIME = Fin (MIN_SEGMENT_MS / 60000)"

text \<open>
  Access to a planner buffer through its index, to the runtime, and to the run block
  \<open>mr->r\<close>, which is one of the two blocks of the runtime.
\<close>

definition upd_buf :: "nat \<Rightarrow> (mpBuf \<Rightarrow> mpBuf) \<Rightarrow> machine \<Rightarrow> machine" where
  "upd_buf i f s = s\<lparr>bufs := (bufs s)[i := f (bufs s ! i)]\<rparr>"

definition upd_mr :: "(mpPlannerRuntime \<Rightarrow> mpPlannerRuntime) \<Rightarrow> machine \<Rightarrow> machine" where
  "upd_mr f s = s\<lparr>mr := f (mr s)\<rparr>"

definition run_block :: "machine \<Rightarrow> mpBlockRuntimeBuf" where
  "run_block s = mr_block (mr s) (mr_r (mr s))"

definition upd_run_block ::
  "(mpBlockRuntimeBuf \<Rightarrow> mpBlockRuntimeBuf) \<Rightarrow> machine \<Rightarrow> machine" where
  "upd_run_block f s =
     upd_mr (\<lambda>m. m\<lparr>mr_block := (mr_block m)(mr_r m := f (mr_block m (mr_r m)))\<rparr>) s"

subsection \<open>Forward planning\<close>


subsection \<open>Normalisation of a block\<close>

text \<open>
  \<open>_exec_aline_normalize_block\<close>. The entry velocity is read from the runtime. In the last
  branch, a move that is all body and still too short, the code only traps for debugging.
\<close>

definition exec_aline_normalize_block ::
  "cfloat \<Rightarrow> mpBlockRuntimeBuf \<Rightarrow> mpBlockRuntimeBuf" where
  "exec_aline_normalize_block entry_v b0 =
     (let b1 = (if Fin 0 < head_length b0 \<and> head_time b0 < MIN_SEGMENT_TIME then
                  let bl = body_length b0 + head_length b0
                  in b0\<lparr>body_length := bl, body_time := bl / rb_cruise_velocity b0,
                        head_length := Fin 0, head_time := Fin 0\<rparr>
                else b0);
          b2 = (if Fin 0 < tail_length b1 \<and> tail_time b1 < MIN_SEGMENT_TIME then
                  let bl = body_length b1 + tail_length b1
                  in b1\<lparr>body_length := bl, body_time := bl / rb_cruise_velocity b1,
                        tail_length := Fin 0, tail_time := Fin 0\<rparr>
                else b1)
      in if Fin 0 < body_length b2 \<and> body_time b2 < MIN_SEGMENT_TIME then
           if Fin 0 < tail_length b2 then
             if Fin 0 < head_length b2 then
               let hl = head_length b2 + body_length b2 * Fin (1 / 2);
                   tl = tail_length b2 + body_length b2 * Fin (1 / 2)
               in b2\<lparr>head_length := hl, tail_length := tl,
                     head_time := (Fin 2 * hl) / (entry_v + rb_cruise_velocity b2),
                     tail_time := (Fin 2 * tl) / (rb_cruise_velocity b2 + rb_exit_velocity b2),
                     body_length := Fin 0, body_time := Fin 0\<rparr>
             else
               let tl = tail_length b2 + body_length b2
               in b2\<lparr>tail_length := tl,
                     tail_time := (Fin 2 * tl) / (rb_cruise_velocity b2 + rb_exit_velocity b2),
                     body_length := Fin 0, body_time := Fin 0\<rparr>
           else if Fin 0 < head_length b2 then
             let hl = head_length b2 + body_length b2
             in b2\<lparr>head_length := hl,
                   head_time := (Fin 2 * hl) / (entry_v + rb_cruise_velocity b2),
                   body_length := Fin 0, body_time := Fin 0\<rparr>
           else b2
         else b2)"

subsection \<open>Forward differences\<close>

definition init_forward_diffs ::
  "cfloat \<Rightarrow> cfloat \<Rightarrow> mpPlannerRuntime \<Rightarrow> mpPlannerRuntime" where
  "init_forward_diffs v_0 v_1 m =
     (let A = Fin (- 6) * v_0 + Fin 6 * v_1;
          B = Fin 15 * v_0 - Fin 15 * v_1;
          C = Fin (- 10) * v_0 + Fin 10 * v_1;
          h = Fin 1 / segments m;
          h_2 = h * h;
          h_3 = h_2 * h;
          h_4 = h_3 * h;
          h_5 = h_4 * h;
          Ah_5 = A * h_5;
          Bh_4 = B * h_4;
          Ch_3 = C * h_3;
          const1 = Fin (121 / 16);
          const2 = Fin (13 / 4);
          const3 = Fin (165 / 2);
          half_h = h * Fin (1 / 2);
          half_h_3 = half_h * half_h * half_h;
          half_h_4 = half_h_3 * half_h;
          half_h_5 = half_h_4 * half_h;
          half_Ch_3 = C * half_h_3;
          half_Bh_4 = B * half_h_4;
          half_Ah_5 = A * half_h_5
      in m\<lparr>forward_diff_5 := const1 * Ah_5 + Fin 5 * Bh_4 + const2 * Ch_3,
            forward_diff_4 := const3 * Ah_5 + Fin 29 * Bh_4 + Fin 9 * Ch_3,
            forward_diff_3 := Fin 255 * Ah_5 + Fin 48 * Bh_4 + Fin 6 * Ch_3,
            forward_diff_2 := Fin 300 * Ah_5 + Fin 24 * Bh_4,
            forward_diff_1 := Fin 120 * Ah_5,
            segment_velocity := half_Ah_5 + half_Bh_4 + half_Ch_3 + v_0\<rparr>)"

text \<open>The four additions that head and tail make after a segment that is not the first.\<close>

definition advance_forward_diffs :: "mpPlannerRuntime \<Rightarrow> mpPlannerRuntime" where
  "advance_forward_diffs m =
     m\<lparr>forward_diff_5 := forward_diff_5 m + forward_diff_4 m,
       forward_diff_4 := forward_diff_4 m + forward_diff_3 m,
       forward_diff_3 := forward_diff_3 m + forward_diff_2 m,
       forward_diff_2 := forward_diff_2 m + forward_diff_1 m\<rparr>"

subsection \<open>One segment\<close>

text \<open>
  \<open>_exec_aline_segment\<close>, in the order of the code: the count and the target of the segment,
  the steps of the motors, the travel, and the call of the stepper. The loops over the axes
  and over the motors treat each index on its own, so each array after a loop is given
  index by index; the arrays have \<open>AXES\<close> and \<open>MOTORS\<close> entries.
\<close>

definition segment_target :: "env \<Rightarrow> machine \<Rightarrow> mpPlannerRuntime" where
  "segment_target env s0 =
     (let m0 = (mr s0)\<lparr>segment_count := segment_count (mr s0) - 1\<rparr>
      in if segment_count m0 = 0 \<and> hold_state (cm s0) = FEEDHOLD_OFF then
           m0\<lparr>mr_gm := (mr_gm m0)\<lparr>target := waypoint m0 (mr_section m0)\<rparr>\<rparr>
         else
           let segment_length = segment_velocity m0 * segment_time m0;
               to_add = (\<lambda>a. mr_unit m0 a * segment_length - target_comp (mr_gm m0) a);
               tgt = (\<lambda>a. position m0 a + to_add a)
           in m0\<lparr>mr_gm := (mr_gm m0)
                  \<lparr>target := (\<lambda>a. if a < AXES env then tgt a else target (mr_gm m0) a),
                   target_comp :=
                     (\<lambda>a. if a < AXES env then (tgt a - position m0 a) - to_add a
                          else target_comp (mr_gm m0) a)\<rparr>\<rparr>)"

definition segment_steps :: "env \<Rightarrow> mpPlannerRuntime \<Rightarrow> mpPlannerRuntime" where
  "segment_steps env m1 =
     (let m2 = m1\<lparr>commanded_steps :=
                     (\<lambda>k. if k < MOTORS env then position_steps m1 k else commanded_steps m1 k),
                   position_steps :=
                     (\<lambda>k. if k < MOTORS env then target_steps m1 k else position_steps m1 k),
                   encoder_steps :=
                     (\<lambda>k. if k < MOTORS env then en_read_encoder env k else encoder_steps m1 k),
                   following_error :=
                     (\<lambda>k. if k < MOTORS env then en_read_encoder env k - position_steps m1 k
                          else following_error m1 k)\<rparr>
      in m2\<lparr>target_steps := kn_inverse_kinematics env (target (mr_gm m2)) (target_steps m2)\<rparr>)"

definition segment_travel :: "mpPlannerRuntime \<Rightarrow> nat \<Rightarrow> cfloat" where
  "segment_travel m k =
     (let d = target_steps m k - position_steps m k
      in if fabs d < Fin (1 / 100) then Fin 0 else d)"

definition exec_aline_segment :: "env \<Rightarrow> machine \<Rightarrow> stat_t \<times> machine" where
  "exec_aline_segment env s0 =
     (let m3 = segment_steps env (segment_target env s0);
          rt = run_time_remaining s0 - segment_time m3;
          s1 = s0\<lparr>mr := m3, run_time_remaining := (if rt < Fin 0 then Fin 0 else rt)\<rparr>;
          (status, s2) =
            st_prep_line env (segment_travel m3) (following_error m3) (segment_time m3) s1
      in if status \<noteq> STAT_OK then (status, s2)
         else
           let s3 = upd_mr (\<lambda>m. m\<lparr>position := target (mr_gm m)\<rparr>) s2
           in if segment_count (mr s3) = 0 then (STAT_OK, s3) else (STAT_EAGAIN, s3))"

subsection \<open>Head, body and tail\<close>

text \<open>
  The set-up of a new section in the three helpers, after the test for a section of length
  zero: the number of segments, the time of a segment and the velocity of the first
  segment. The result \<open>Some\<close> ends the call at once.
\<close>

definition tail_new_section :: "env \<Rightarrow> machine \<Rightarrow> stat_t option \<times> machine" where
  "tail_new_section env s =
     (let segs = ceil (uSec env (tail_time (run_block s)) / NOM_SEGMENT_USEC);
          m1 = (mr s)\<lparr>segments := segs,
                       segment_count := float_to_uint32 (ub_uint32 env) segs,
                       segment_time := tail_time (run_block s) / segs\<rparr>;
          m2 = (if segment_count m1 = 1
                then m1\<lparr>segment_velocity := tail_length (run_block s) / segment_time m1\<rparr>
                else init_forward_diffs (rb_cruise_velocity (run_block s))
                       (rb_exit_velocity (run_block s)) m1)
      in if segment_time m2 < MIN_SEGMENT_TIME then (Some STAT_OK, s\<lparr>mr := m2\<rparr>)
         else (None, s\<lparr>mr := m2\<lparr>section_state := SECTION_RUNNING\<rparr>\<rparr>))"

definition body_new_section :: "env \<Rightarrow> machine \<Rightarrow> stat_t option \<times> machine" where
  "body_new_section env s =
     (let bt = body_time (run_block s);
          segs = ceil (uSec env bt / NOM_SEGMENT_USEC);
          m1 = (mr s)\<lparr>segments := segs, segment_time := bt / segs,
                       segment_velocity := rb_cruise_velocity (run_block s),
                       segment_count := float_to_uint32 (ub_uint32 env) segs\<rparr>
      in if segment_time m1 < MIN_SEGMENT_TIME then (Some STAT_OK, s\<lparr>mr := m1\<rparr>)
         else (None, s\<lparr>mr := m1\<lparr>section_state := SECTION_RUNNING\<rparr>\<rparr>))"

definition head_new_section :: "env \<Rightarrow> machine \<Rightarrow> stat_t option \<times> machine" where
  "head_new_section env s =
     (let segs = ceil (uSec env (head_time (run_block s)) / NOM_SEGMENT_USEC);
          m1 = (mr s)\<lparr>segments := segs,
                       segment_count := float_to_uint32 (ub_uint32 env) segs,
                       segment_time := head_time (run_block s) / segs\<rparr>;
          m2 = (if segment_count m1 = 1
                then m1\<lparr>segment_velocity := head_length (run_block s) / segment_time m1\<rparr>
                else init_forward_diffs (entry_velocity m1)
                       (rb_cruise_velocity (run_block s)) m1)
      in if segment_time m2 < MIN_SEGMENT_TIME then (Some STAT_OK, s\<lparr>mr := m2\<rparr>)
         else (None, s\<lparr>mr := m2\<lparr>section_state := SECTION_RUNNING\<rparr>\<rparr>))"

text \<open>
  The three helpers first set a new section up and then run one segment. Head and tail
  remember whether the call was the first pass of the section. The head passes a head of
  length zero on to the body, and the body a body of length zero on to the tail.
\<close>

definition exec_aline_tail :: "env \<Rightarrow> nat \<Rightarrow> machine \<Rightarrow> stat_t \<times> machine" where
  "exec_aline_tail env bf s =
     (let first_pass = (section_state (mr s) = SECTION_NEW);
          (early, s1) =
            (if first_pass then
               let t0 = upd_buf bf (\<lambda>b. b\<lparr>plannable := False\<rparr>) s
               in if fp_ZERO env (tail_length (run_block t0)) then (Some STAT_OK, t0)
                  else tail_new_section env t0
             else
               (None, upd_mr (\<lambda>m. m\<lparr>segment_velocity :=
                                       segment_velocity m + forward_diff_5 m\<rparr>) s))
      in case early of
           Some status \<Rightarrow> (status, s1)
         | None \<Rightarrow>
             let (status, s2) = exec_aline_segment env s1
             in if status = STAT_OK then (STAT_OK, s2)
                else if \<not> first_pass then (STAT_EAGAIN, upd_mr advance_forward_diffs s2)
                else (STAT_EAGAIN, s2))"

definition exec_aline_body :: "env \<Rightarrow> nat \<Rightarrow> machine \<Rightarrow> stat_t \<times> machine" where
  "exec_aline_body env bf s =
     (let (early, s1) =
            (if section_state (mr s) = SECTION_NEW then
               if fp_ZERO env (body_length (run_block s)) then
                 let (status, t1) =
                       exec_aline_tail env bf (upd_mr (\<lambda>m. m\<lparr>mr_section := SECTION_TAIL\<rparr>) s)
                 in (Some status, t1)
               else body_new_section env s
             else (None, s))
      in case early of
           Some status \<Rightarrow> (status, s1)
         | None \<Rightarrow>
             let (status, s2) = exec_aline_segment env s1
             in if status = STAT_OK then
                  if fp_ZERO env (tail_length (run_block s2)) then (STAT_OK, s2)
                  else (STAT_EAGAIN,
                        upd_mr (\<lambda>m. m\<lparr>mr_section := SECTION_TAIL, section_state := SECTION_NEW\<rparr>) s2)
                else (STAT_EAGAIN, s2))"

definition exec_aline_head :: "env \<Rightarrow> nat \<Rightarrow> machine \<Rightarrow> stat_t \<times> machine" where
  "exec_aline_head env bf s =
     (let first_pass = (section_state (mr s) = SECTION_NEW);
          (early, s1) =
            (if first_pass then
               if fp_ZERO env (head_length (run_block s)) then
                 let (status, t1) =
                       exec_aline_body env bf (upd_mr (\<lambda>m. m\<lparr>mr_section := SECTION_BODY\<rparr>) s)
                 in (Some status, t1)
               else head_new_section env s
             else
               (None, upd_mr (\<lambda>m. m\<lparr>segment_velocity :=
                                       segment_velocity m + forward_diff_5 m\<rparr>) s))
      in case early of
           Some status \<Rightarrow> (status, s1)
         | None \<Rightarrow>
             let (status, s2) = exec_aline_segment env s1
             in if status = STAT_OK then
                  if fp_ZERO env (body_length (run_block s2))
                     \<and> fp_ZERO env (tail_length (run_block s2))
                  then (STAT_OK, s2)
                  else (STAT_EAGAIN,
                        upd_mr (\<lambda>m. m\<lparr>mr_section := SECTION_BODY, section_state := SECTION_NEW\<rparr>) s2)
                else if \<not> first_pass then (STAT_EAGAIN, upd_mr advance_forward_diffs s2)
                else (STAT_EAGAIN, s2))"

subsection \<open>Feedhold\<close>

text \<open>
  The loop of \<open>_exec_aline_feedhold\<close> that takes the run buffer and the buffers after it
  back to the state in which they can be planned again. A pointer to a buffer is an index
  into the pool; the loop follows the link \<open>nx\<close>. Each round takes one buffer out of the
  states above \<open>MP_BUFFER_BACK_PLANNED\<close>, so the loop ends.
\<close>

lemma filter_update_less:
  "i < length bs \<Longrightarrow> P (bs ! i) \<Longrightarrow> \<not> P x
     \<Longrightarrow> length (filter P (bs[i := x])) < length (filter P bs)"
proof (induction bs arbitrary: i)
  case Nil
  then show ?case by simp
next
  case (Cons b bs)
  show ?case
  proof (cases i)
    case 0
    then show ?thesis using Cons.prems by simp
  next
    case (Suc j)
    then have "length (filter P (bs[j := x])) < length (filter P bs)"
      using Cons.prems Cons.IH [of j] by simp
    then show ?thesis using Suc by simp
  qed
qed

function revert_buffers :: "nat \<Rightarrow> mpBuf list \<Rightarrow> mpBuf list" where
  "revert_buffers i bs =
     (if i < length bs
         \<and> bufferState_val MP_BUFFER_BACK_PLANNED < bufferState_val (buffer_state (bs ! i))
      then revert_buffers (nx (bs ! i))
             (bs[i := (bs ! i)\<lparr>buffer_state := MP_BUFFER_BACK_PLANNED, plannable := True\<rparr>])
      else bs)"
  by pat_completeness auto
termination
  by (relation "measure (\<lambda>(i, bs). length (filter
         (\<lambda>b. bufferState_val MP_BUFFER_BACK_PLANNED < bufferState_val (buffer_state b)) bs))")
     (auto intro!: filter_update_less)

declare revert_buffers.simps [simp del]

text \<open>\<open>reset\<close> of the runtime (planner.h).\<close>

definition mr_reset :: "mpPlannerRuntime \<Rightarrow> mpPlannerRuntime" where
  "mr_reset m =
     m\<lparr>mr_block_state := BLOCK_INACTIVE, mr_section := SECTION_HEAD,
       section_state := SECTION_OFF, entry_velocity := Fin 0,
       mr_block := (mr_block m)(mr_r m := (mr_block m (mr_r m))\<lparr>rb_exit_velocity := Fin 0\<rparr>),
       segment_velocity := Fin 0\<rparr>"


text \<open>
  \<open>_exec_aline_feedhold\<close>, case (4): the steppers have stopped. The request for a status
  report at the end is left out: status reports are outside the model.
\<close>

definition feedhold_stopped :: "env \<Rightarrow> nat \<Rightarrow> machine \<Rightarrow> machine" where
  "feedhold_stopped env bf s =
     (let s1 =
            (if hold_type (cm s) = FEEDHOLD_TYPE_SKIP then
               snd (mp_free_run_buffer env (s\<lparr>mp_position := position (mr s)\<rparr>))
             else
               let t1 = upd_buf bf
                          (\<lambda>b. b\<lparr>bf_length :=
                             get_axis_vector_length env (position (mr s)) (mr_target (mr s))\<rparr>) s
               in if bf_length (bufs t1 ! bf) < EPSILON4 env then
                    snd (mp_free_run_buffer env (t1\<lparr>mp_position := position (mr t1)\<rparr>))
                  else
                    let t2 = upd_buf bf (\<lambda>b. b\<lparr>block_state := BLOCK_INITIAL_ACTION\<rparr>) t1
                    in t2\<lparr>bufs := revert_buffers bf (bufs t2)\<rparr>);
          s3 = cm_set_motion_state env MOTION_STOP (upd_mr mr_reset s1)
      in s3\<lparr>cm := (cm s3)\<lparr>hold_state := FEEDHOLD_MOTION_STOPPED\<rparr>\<rparr>)"

text \<open>
  Cases (1b) and (1c): the block is in a body or about to start a head, and the rest of it
  becomes a tail.
\<close>

definition feedhold_tail :: "env \<Rightarrow> nat \<Rightarrow> machine \<Rightarrow> machine" where
  "feedhold_tail env bf s =
     (let s1 = upd_mr (\<lambda>m. m\<lparr>mr_section := SECTION_TAIL, section_state := SECTION_NEW,
                              entry_velocity := segment_velocity m\<rparr>) s;
          s2 = upd_run_block (\<lambda>b. b\<lparr>rb_cruise_velocity := entry_velocity (mr s1)\<rparr>) s1
      in upd_run_block
           (\<lambda>b. b\<lparr>tail_length :=
                     mp_get_target_length env (Fin 0) (rb_cruise_velocity b) (bufs s2 ! bf),
                  head_length := Fin 0, body_length := Fin 0,
                  head_time := Fin 0, body_time := Fin 0\<rparr>) s2)"

definition feedhold_fit :: "env \<Rightarrow> nat \<Rightarrow> machine \<Rightarrow> machine" where
  "feedhold_fit env bf s3 =
     (let available_length =
            get_axis_vector_length env (mr_target (mr s3)) (position (mr s3))
      in if Fin 0 < available_length + EPSILON2 env - tail_length (run_block s3) then
           let t1 = s3\<lparr>cm := (cm s3)\<lparr>hold_state := FEEDHOLD_DECEL_TO_ZERO\<rparr>\<rparr>;
               t2 = upd_run_block (\<lambda>b. b\<lparr>rb_exit_velocity := Fin 0\<rparr>) t1;
               t3 = upd_run_block
                      (\<lambda>b. b\<lparr>tail_time := tail_length b * Fin 2
                                / (rb_exit_velocity b + rb_cruise_velocity b)\<rparr>) t2
           in upd_buf bf (\<lambda>b. b\<lparr>block_time := tail_time (run_block t3)\<rparr>) t3
         else
           let t1 = s3\<lparr>cm := (cm s3)\<lparr>hold_state := FEEDHOLD_DECEL_CONTINUE\<rparr>\<rparr>;
               t2 = upd_run_block (\<lambda>b. b\<lparr>tail_length := available_length\<rparr>) t1;
               t3 = upd_run_block
                      (\<lambda>b. b\<lparr>rb_exit_velocity :=
                         mp_get_decel_velocity env (rb_cruise_velocity b) (tail_length b)
                           (bufs t2 ! bf)\<rparr>) t2
           in if Fin 0 \<le> rb_exit_velocity (run_block t3) then
                let t4 = upd_run_block
                           (\<lambda>b. b\<lparr>tail_time := tail_length b * Fin 2
                                     / (rb_exit_velocity b + rb_cruise_velocity b)\<rparr>) t3
                in upd_buf bf (\<lambda>b. b\<lparr>block_time := tail_time (run_block t4)\<rparr>) t4
              else
                upd_run_block
                  (\<lambda>b. b\<lparr>rb_exit_velocity := rb_cruise_velocity b,
                         body_length := available_length,
                         body_time := available_length / rb_cruise_velocity b,
                         tail_length := Fin 0, tail_time := Fin 0\<rparr>)
                  (upd_mr (\<lambda>m. m\<lparr>mr_section := SECTION_BODY\<rparr>) t3))"

text \<open>\<open>_exec_aline_feedhold\<close>.\<close>

definition exec_aline_feedhold :: "env \<Rightarrow> nat \<Rightarrow> machine \<Rightarrow> stat_t \<times> machine" where
  "exec_aline_feedhold env bf s =
     (if hold_state (cm s) = FEEDHOLD_MOTION_STOPPING then
        if mp_runtime_is_idle env s then (STAT_NOOP, feedhold_stopped env bf s)
        else (STAT_NOOP, s)
      else if hold_state (cm s) = FEEDHOLD_DECEL_COMPLETE then
        (STAT_OK, s\<lparr>cm := (cm s)\<lparr>hold_state := FEEDHOLD_MOTION_STOPPING\<rparr>\<rparr>)
      else if hold_state (cm s) = FEEDHOLD_SYNC
              \<or> (hold_state (cm s) = FEEDHOLD_DECEL_CONTINUE
                  \<and> mr_block_state (mr s) = BLOCK_INITIAL_ACTION) then
        if mr_section (mr s) = SECTION_TAIL then
          (STAT_EAGAIN,
           s\<lparr>cm := (cm s)\<lparr>hold_state :=
                (if rb_exit_velocity (run_block s) < EPSILON2 env then FEEDHOLD_DECEL_TO_ZERO
                 else FEEDHOLD_DECEL_CONTINUE)\<rparr>\<rparr>)
        else if mr_section (mr s) = SECTION_HEAD \<and> section_state (mr s) \<noteq> SECTION_NEW then
          (STAT_EAGAIN, s)
        else
          let s4 = feedhold_fit env bf (feedhold_tail env bf s)
          in (STAT_EAGAIN,
              upd_run_block (exec_aline_normalize_block (entry_velocity (mr s4))) s4)
      else (STAT_EAGAIN, s))"

subsection \<open>The line executor\<close>

text \<open>The set-up of a new block at the head of \<open>mp_exec_aline\<close>; the traps change nothing.\<close>

definition exec_aline_new_block :: "env \<Rightarrow> nat \<Rightarrow> machine \<Rightarrow> machine" where
  "exec_aline_new_block env bf s0 =
     (let s1 = upd_buf bf (\<lambda>b. b\<lparr>block_state := BLOCK_ACTIVE\<rparr>)
                 (upd_mr (\<lambda>m. m\<lparr>mr_gm := bf_gm (bufs s0 ! bf)\<rparr>) s0);
          s2 = upd_mr (\<lambda>m. m\<lparr>mr_block_state := BLOCK_INITIAL_ACTION, mr_r := mr_p m,
                                  mr_p := rb_nx (mr_block m (mr_p m))\<rparr>) s1;
          s3 = upd_run_block (exec_aline_normalize_block (entry_velocity (mr s2))) s2;
          r = run_block s3;
          s4 = upd_mr
                 (\<lambda>m. m\<lparr>mr_unit := bf_unit (bufs s3 ! bf),
                        mr_target := target (bf_gm (bufs s3 ! bf)),
                        mr_axis_flags := axis_flags (bufs s3 ! bf),
                        run_bf := bf, plan_bf := nx (bufs s3 ! bf),
                        section_state := SECTION_NEW,
                        mr_section :=
                          (if fp_ZERO env (head_length r)
                           then (if fp_ZERO env (body_length r) then SECTION_TAIL
                                 else SECTION_BODY)
                           else SECTION_HEAD)\<rparr>) s3
      in upd_mr
           (\<lambda>m. m\<lparr>waypoint :=
               (\<lambda>sec axis.
                  if axis < AXES env then
                    (case sec of
                       SECTION_HEAD \<Rightarrow> position m axis + mr_unit m axis * head_length r
                     | SECTION_BODY \<Rightarrow>
                         position m axis + mr_unit m axis * (head_length r + body_length r)
                     | SECTION_TAIL \<Rightarrow>
                         position m axis
                           + mr_unit m axis * (head_length r + body_length r + tail_length r))
                  else waypoint m sec axis)\<rparr>) s4)"


text \<open>
  The parts of \<open>mp_exec_aline\<close> after the set-up of a new block, in the order of the code:
  the feedhold, which may end the call; the dispatcher to the section (the section of the
  runtime is one of head, body and tail, so the last branch of the dispatcher, the panic,
  has no counterpart here); the states that depend on the result; and the end of the
  block. The request for a status report is left out.
\<close>

definition exec_aline_hold :: "env \<Rightarrow> nat \<Rightarrow> machine \<Rightarrow> stat_t option \<times> machine" where
  "exec_aline_hold env bf s1 =
     (if hold_state (cm s1) \<noteq> FEEDHOLD_OFF then
        if cmFeedholdState_val FEEDHOLD_MOTION_STOPPED
             \<le> cmFeedholdState_val (hold_state (cm s1))
        then (Some STAT_NOOP, s1)
        else
          let (status, t1) = exec_aline_feedhold env bf s1
          in if status = STAT_OK \<or> status = STAT_NOOP then (Some status, t1)
             else (None, t1)
      else (None, s1))"

definition exec_aline_dispatch :: "env \<Rightarrow> nat \<Rightarrow> machine \<Rightarrow> stat_t \<times> machine" where
  "exec_aline_dispatch env bf s3 =
     (case mr_section (mr s3) of
        SECTION_HEAD \<Rightarrow> exec_aline_head env bf s3
      | SECTION_BODY \<Rightarrow> exec_aline_body env bf s3
      | SECTION_TAIL \<Rightarrow> exec_aline_tail env bf s3)"

definition exec_aline_states :: "env \<Rightarrow> nat \<Rightarrow> stat_t \<Rightarrow> machine \<Rightarrow> machine" where
  "exec_aline_states env bf status s4 =
     (let s5 = (if mr_section (mr s4) = SECTION_TAIL
                   \<or> (mr_section (mr s4) = SECTION_BODY \<and> segment_count (mr s4) < 3)
                then upd_buf bf (\<lambda>b. b\<lparr>plannable := False\<rparr>) s4 else s4);
          s6 = (if hold_state (cm s5) = FEEDHOLD_DECEL_TO_ZERO
                   \<and> (status = STAT_OK \<or> status = STAT_NOOP)
                then upd_buf bf (\<lambda>b. b\<lparr>block_state := BLOCK_INITIAL_ACTION\<rparr>)
                       (s5\<lparr>cm := (cm s5)\<lparr>hold_state := FEEDHOLD_DECEL_COMPLETE\<rparr>\<rparr>)
                else s5)
      in if motion_state (cm s6) \<noteq> MOTION_RUN
         then cm_set_motion_state env MOTION_RUN s6 else s6)"

definition exec_aline_finish :: "env \<Rightarrow> nat \<Rightarrow> machine \<Rightarrow> machine" where
  "exec_aline_finish env bf s7 =
     (let s8 = (upd_mr (\<lambda>m. m\<lparr>mr_block_state := BLOCK_INACTIVE,
                               section_state := SECTION_OFF\<rparr>) s7)
                 \<lparr>run_time_remaining := Fin 0\<rparr>;
          s9 = upd_mr (\<lambda>m. m\<lparr>entry_velocity := rb_exit_velocity (mr_block m (mr_r m))\<rparr>) s8
      in if block_state (bufs s9 ! bf) = BLOCK_ACTIVE then
           let (emptied, t1) = mp_free_run_buffer env s9
           in if emptied then
                (if hold_state (cm t1) = FEEDHOLD_OFF
                 then cm_cycle_end env (cm_set_motion_state env MOTION_STOP t1)
                 else t1)
              else st_request_forward_plan t1
         else s9)"

text \<open>\<open>mp_exec_aline\<close>.\<close>

definition mp_exec_aline :: "env \<Rightarrow> nat \<Rightarrow> machine \<Rightarrow> stat_t \<times> machine" where
  "mp_exec_aline env bf s0 =
     (if machine_state (cm s0) \<noteq> MACHINE_CYCLE then (STAT_NOOP, s0)
      else if block_state (bufs s0 ! bf) = BLOCK_INACTIVE then (STAT_NOOP, s0)
      else
        let s1 = (if mr_block_state (mr s0) = BLOCK_INACTIVE
                  then exec_aline_new_block env bf s0 else s0);
            (early, s2) = exec_aline_hold env bf s1
        in case early of
             Some status \<Rightarrow> (status, s2)
           | None \<Rightarrow>
               let (status, s4) =
                     exec_aline_dispatch env bf
                       (upd_mr (\<lambda>m. m\<lparr>mr_block_state := BLOCK_ACTIVE\<rparr>) s2);
                   s7 = exec_aline_states env bf status s4
               in if status = STAT_EAGAIN then (status, s7)
                  else (status, exec_aline_finish env bf s7))"

subsection \<open>The move executor\<close>

text \<open>
  The part of \<open>mp_exec_move\<close> for a line that is the run buffer: the first call on the
  buffer takes it to the state RUNNING, unless the planner is not ready, and the forward
  planner is asked for the next move. The traps change nothing.
\<close>

definition exec_move_aline :: "env \<Rightarrow> nat \<Rightarrow> machine \<Rightarrow> stat_t option \<times> machine" where
  "exec_move_aline env bf s0 =
     (let (early, t1) =
            (if buffer_state (bufs s0 ! bf) \<noteq> MP_BUFFER_RUNNING then
               if bufferState_val (buffer_state (bufs s0 ! bf))
                    < bufferState_val MP_BUFFER_BACK_PLANNED
                  \<and> motion_state (cm s0) = MOTION_RUN
               then (Some STAT_NOOP, st_prep_null s0)
               else if buffer_state (bufs s0 ! bf) = MP_BUFFER_BACK_PLANNED
               then (Some STAT_NOOP, st_request_forward_plan s0)
               else if buffer_state (bufs s0 ! bf) = MP_BUFFER_FULLY_PLANNED
               then (None,
                     mp_planner_time_accounting env
                       (upd_buf bf (\<lambda>b. b\<lparr>buffer_state := MP_BUFFER_RUNNING\<rparr>) s0))
               else (Some STAT_NOOP, s0)
             else (None, s0))
      in case early of
           Some status \<Rightarrow> (Some status, t1)
         | None \<Rightarrow>
             (None,
              if bufferState_val MP_BUFFER_BACK_PLANNED
                   \<le> bufferState_val (buffer_state (bufs t1 ! nx (bufs t1 ! bf)))
              then st_request_forward_plan t1 else t1))"

text \<open>
  \<open>mp_exec_move\<close>. The callback of the run buffer is \<open>mp_exec_aline\<close> or one of the callbacks
  from outside the sources at hand.
\<close>

definition mp_exec_move :: "env \<Rightarrow> machine \<Rightarrow> stat_t \<times> machine" where
  "mp_exec_move env s0 =
     (if out_of_band_dwell_flag (mr s0) then
        let s1 = upd_mr (\<lambda>m. m\<lparr>out_of_band_dwell_flag := False\<rparr>) s0
        in (STAT_OK,
            st_prep_out_of_band_dwell env
              (out_of_band_dwell_seconds (mr s1) * Fin 1000000) s1)
      else
        case mp_get_run_buffer env s0 of
          None \<Rightarrow> (STAT_NOOP, st_prep_null s0)
        | Some bf \<Rightarrow>
            let (early, s1) =
                  (if block_type (bufs s0 ! bf) = BLOCK_TYPE_ALINE
                   then exec_move_aline env bf s0 else (None, s0))
            in case early of
                 Some status \<Rightarrow> (status, s1)
               | None \<Rightarrow>
                   (case bf_func (bufs s1 ! bf) of
                      BF_NULL \<Rightarrow> cm_panic STAT_INTERNAL_ERROR s1
                    | BF_MP_EXEC_ALINE \<Rightarrow> mp_exec_aline env bf s1
                    | BF_CALLBACK n \<Rightarrow> bf_callback env n bf s1))"

subsection \<open>Notions for the statements about the executor\<close>


text \<open>
  What the statement on the prepared segments assumes of the functions from outside the
  sources at hand: the functions of the planner queue and of the canonical machine hand
  nothing to the loader, and a callback of a command or dwell hands over at most once.
\<close>

definition externals_prepare_nothing :: "env \<Rightarrow> bool" where
  "externals_prepare_nothing env =
     ((\<forall>s. prep_calls (snd (mp_free_run_buffer env s)) = prep_calls s)
      \<and> (\<forall>ms s. prep_calls (cm_set_motion_state env ms s) = prep_calls s)
      \<and> (\<forall>s. prep_calls (cm_cycle_end env s) = prep_calls s)
      \<and> (\<forall>s. prep_calls (mp_planner_time_accounting env s) = prep_calls s)
      \<and> (\<forall>n bf s. prep_calls (snd (bf_callback env n bf s)) = prep_calls s
                   \<or> (\<exists>c. prep_calls (snd (bf_callback env n bf s)) = prep_calls s @ [c])))"

text \<open>
  The states of the buffers of the pool, and the changes of the state of one buffer that
  one call of the executor can make: none, from FULLY_PLANNED to RUNNING, from a state
  above BACK_PLANNED back to BACK_PLANNED, and to EMPTY.
\<close>

definition buffer_states :: "machine \<Rightarrow> bufferState list" where
  "buffer_states s = map buffer_state (bufs s)"

definition buffer_step :: "bufferState \<Rightarrow> bufferState \<Rightarrow> bool" where
  "buffer_step a b =
     (b = a
      \<or> (a = MP_BUFFER_FULLY_PLANNED \<and> b = MP_BUFFER_RUNNING)
      \<or> (bufferState_val MP_BUFFER_BACK_PLANNED < bufferState_val a
          \<and> b = MP_BUFFER_BACK_PLANNED)
      \<or> b = MP_BUFFER_EMPTY)"


definition pool_step :: "machine \<Rightarrow> machine \<Rightarrow> bool" where
  "pool_step s t = list_all2 buffer_step (buffer_states s) (buffer_states t)"


section \<open>An instance of the parameters and an idle machine\<close>

text \<open>
  Values for the parameters, used where a theorem is evaluated on a concrete input: a DDA
  clock of 200 kHz, a dwell clock of 1 kHz, six motors, nine axes, and for the functions
  from outside the sources at hand the simplest behaviour of the right type: the kinematics
  are the identity, the length of a vector is its length along the first axis, and
  out-of-range conversions give zero.
\<close>

definition zero_vector :: "nat \<Rightarrow> cfloat" where
  "zero_vector = (\<lambda>_. Fin 0)"

definition demo_min3 :: "cfloat \<Rightarrow> cfloat \<Rightarrow> cfloat \<Rightarrow> cfloat" where
  "demo_min3 a b c = (let m = (if b < a then b else a) in if c < m then c else m)"

definition demo_max3 :: "cfloat \<Rightarrow> cfloat \<Rightarrow> cfloat \<Rightarrow> cfloat" where
  "demo_max3 a b c = (let m = (if a < b then b else a) in if m < c then c else m)"

text \<open>
  The run buffer is freed by clearing its state and moving the read index of the queue to
  the next buffer; the result tells whether the queue is empty then.
\<close>

definition demo_free_run_buffer :: "machine \<Rightarrow> bool \<times> machine" where
  "demo_free_run_buffer s =
     (let r = q_r s;
          s1 = s\<lparr>bufs := (bufs s)[r := (bufs s ! r)
                     \<lparr>bf_func := BF_NULL, buffer_state := MP_BUFFER_EMPTY,
                      block_type := BLOCK_TYPE_NULL, block_state := BLOCK_INACTIVE,
                      plannable := False\<rparr>],
                 q_r := nx (bufs s ! r), buffers_available := buffers_available s + 1\<rparr>
      in (q_w s1 = q_r s1, s1))"

definition demo_env :: env where
  "demo_env =
     \<lparr>FREQUENCY_DDA = 200000, FREQUENCY_DWELL = 1000, DDA_SUBSTEPS = 6442450, MOTORS = 6,
      DIRECTION_CW = 0, DIRECTION_CCW = 1,
      STEP_CORRECTION_THRESHOLD = Fin 2, STEP_CORRECTION_FACTOR = Fin (1 / 4),
      STEP_CORRECTION_MAX = Fin (3 / 5), STEP_CORRECTION_HOLDOFF = 5,
      fp_ZERO = (\<lambda>a. fabs a < Fin (1 / 100000)),
      fp_NOT_ZERO = (\<lambda>a. Fin (1 / 100000) < fabs a),
      min3 = demo_min3, max3 = demo_max3,
      ub_int32 = (\<lambda>_. 0), ub_uint32 = (\<lambda>_. 0),
      AXES = 9, EPSILON2 = Fin (1 / 10000), EPSILON4 = Fin (1 / 1000000),
      uSec = (\<lambda>a. a * Fin 60000000),
      mp_get_run_buffer =
        (\<lambda>s. if buffer_state (bufs s ! q_r s) = MP_BUFFER_EMPTY then None else Some (q_r s)),
      mp_runtime_is_idle = (\<lambda>s. \<not> st_runtime_isbusy s),
      mp_runtime_command = (\<lambda>_ s. s),
      bf_callback = (\<lambda>_ _ s. (STAT_OK, s)),
      mp_calculate_ramps = (\<lambda>b bf _. (b, bf)),
      mp_get_target_length = (\<lambda>_ _ _. Fin 0),
      mp_get_decel_velocity = (\<lambda>_ _ _. Fin 0),
      get_axis_vector_length = (\<lambda>a b. fabs (a 0 - b 0)),
      kn_inverse_kinematics = (\<lambda>tgt _. tgt),
      en_read_encoder = (\<lambda>_. Fin 0),
      cm_cycle_end = (\<lambda>s. s\<lparr>cm := (cm s)\<lparr>machine_state := MACHINE_PROGRAM_STOP\<rparr>\<rparr>),
      cm_set_motion_state = (\<lambda>ms s. s\<lparr>cm := (cm s)\<lparr>motion_state := ms\<rparr>\<rparr>),
      mp_free_run_buffer = demo_free_run_buffer,
      mp_planner_time_accounting = (\<lambda>s. s)\<rparr>"

definition idle_prep_motor :: stPrepMotor where
  "idle_prep_motor =
     \<lparr>pre_substep_increment = 0, direction = 0, prev_direction = 0, step_sign = 0,
      correction_holdoff = 0, corrected_steps = Fin 0, prev_segment_time = Fin 0,
      accumulator_correction = Fin 0, accumulator_correction_flag = False\<rparr>"

definition idle_gm :: GCodeState where
  "idle_gm = \<lparr>target = zero_vector, target_comp = zero_vector\<rparr>"

definition empty_buf :: mpBuf where
  "empty_buf =
     \<lparr>pv = 0, nx = 0, buffer_number = 0, bf_func = BF_NULL, buffer_state = MP_BUFFER_EMPTY,
      block_type = BLOCK_TYPE_NULL, block_state = BLOCK_INACTIVE, hint = NO_HINT,
      bf_unit = zero_vector, axis_flags = (\<lambda>_. False), plannable = False,
      bf_length = Fin 0, block_time = Fin 0, override_factor = Fin 0,
      cruise_velocity = Fin 0, exit_velocity = Fin 0, cruise_vset = Fin 0,
      cruise_vmax = Fin 0, exit_vmax = Fin 0, absolute_vmax = Fin 0, junction_vmax = Fin 0,
      jerk = Fin 0, jerk_sq = Fin 0, recip_jerk = Fin 0, sqrt_j = Fin 0,
      q_recip_2_sqrt_j = Fin 0, bf_gm = idle_gm\<rparr>"

definition idle_block :: mpBlockRuntimeBuf where
  "idle_block =
     \<lparr>rb_nx = 0, head_length = Fin 0, body_length = Fin 0, tail_length = Fin 0,
      head_time = Fin 0, body_time = Fin 0, tail_time = Fin 0,
      rb_cruise_velocity = Fin 0, rb_exit_velocity = Fin 0\<rparr>"

definition idle_mr :: mpPlannerRuntime where
  "idle_mr =
     \<lparr>mr_block_state = BLOCK_INACTIVE, mr_section = SECTION_HEAD, section_state = SECTION_OFF,
      out_of_band_dwell_flag = False, out_of_band_dwell_seconds = Fin 0,
      mr_unit = zero_vector, mr_axis_flags = (\<lambda>_. False), mr_target = zero_vector,
      position = zero_vector, waypoint = (\<lambda>_. zero_vector), target_steps = zero_vector,
      position_steps = zero_vector, commanded_steps = zero_vector,
      encoder_steps = zero_vector, following_error = zero_vector,
      mr_r = 0, mr_p = 0,
      mr_block = (\<lambda>i. idle_block\<lparr>rb_nx := (if i = 0 then 1 else 0)\<rparr>),
      plan_bf = 0, run_bf = 0, entry_velocity = Fin 0, segments = Fin 0, segment_count = 0,
      segment_velocity = Fin 0, segment_time = Fin 0, forward_diff_1 = Fin 0,
      forward_diff_2 = Fin 0, forward_diff_3 = Fin 0, forward_diff_4 = Fin 0,
      forward_diff_5 = Fin 0, mr_gm = idle_gm\<rparr>"

definition idle_machine :: machine where
  "idle_machine =
     \<lparr>st_cfg = \<lparr>polarity = (\<lambda>_. 0)\<rparr>,
      st_pre = \<lparr>pre_buffer_state = PREP_BUFFER_OWNED_BY_EXEC, pre_bf = 0,
                pre_block_type = BLOCK_TYPE_NULL, dda_ticks = 0,
                pre_dda_ticks_X_substeps = 0, dwell_ticks = 0,
                pre_mot = (\<lambda>_. idle_prep_motor)\<rparr>,
      st_run = \<lparr>dda_ticks_downcount = 0, dwell_ticks_downcount = 0,
                dda_ticks_X_substeps = 0,
                mot = (\<lambda>_. \<lparr>substep_increment = 0, substep_accumulator = 0\<rparr>)\<rparr>,
      cm = \<lparr>machine_state = MACHINE_READY, motion_state = MOTION_STOP,
            hold_state = FEEDHOLD_OFF, hold_type = FEEDHOLD_TYPE_HOLD\<rparr>,
      mr = idle_mr,
      bufs = [empty_buf\<lparr>nx := 1\<rparr>, empty_buf\<lparr>nx := 2, buffer_number := 1\<rparr>,
              empty_buf\<lparr>nx := 0, buffer_number := 2\<rparr>],
      q_r = 0, q_w = 0, buffers_available = 3, mp_position = zero_vector,
      run_time_remaining = Fin 0, dda_timer_running = False,
      dwell_event_registered = False, exec_timer_pending = False,
      fwd_plan_timer_pending = False, prep_calls = []\<rparr>"



text \<open>
  A machine in a cycle, at the start of a section of a line of length 2.3 along the first
  axis: the run block has a head and a tail of length 1, which take 1/10000 minute each
  between the velocities 0 and 20000, and a body of length 0.3 at the cruise velocity.
\<close>

definition line_buf :: mpBuf where
  "line_buf =
     empty_buf\<lparr>nx := 1, bf_func := BF_MP_EXEC_ALINE, buffer_state := MP_BUFFER_RUNNING,
               block_type := BLOCK_TYPE_ALINE, block_state := BLOCK_ACTIVE,
               bf_unit := zero_vector(0 := Fin 1), bf_length := Fin (23 / 10),
               bf_gm := \<lparr>target = zero_vector(0 := Fin (23 / 10)),
                         target_comp = zero_vector\<rparr>\<rparr>"

definition ramp_block :: mpBlockRuntimeBuf where
  "ramp_block =
     idle_block\<lparr>head_length := Fin 1, body_length := Fin (3 / 10), tail_length := Fin 1,
                head_time := Fin (1 / 10000), body_time := Fin (3 / 200000),
                tail_time := Fin (1 / 10000), rb_cruise_velocity := Fin 20000\<rparr>"

definition running_machine :: machine where
  "running_machine =
     idle_machine
       \<lparr>cm := (cm idle_machine)\<lparr>machine_state := MACHINE_CYCLE, motion_state := MOTION_RUN\<rparr>,
        mr := idle_mr\<lparr>mr_block_state := BLOCK_ACTIVE, section_state := SECTION_NEW,
                      mr_unit := zero_vector(0 := Fin 1),
                      mr_target := zero_vector(0 := Fin (23 / 10)),
                      mr_block := (\<lambda>i. ramp_block\<lparr>rb_nx := (if i = 0 then 1 else 0)\<rparr>)\<rparr>,
        bufs := [line_buf, empty_buf\<lparr>nx := 2, buffer_number := 1\<rparr>,
                 empty_buf\<lparr>nx := 0, buffer_number := 2\<rparr>],
        q_w := 1, buffers_available := 2\<rparr>"

text \<open>
  The same machine with a run block that is all tail, as a feedhold leaves it: the runtime
  is still at the start of the head.
\<close>

definition tail_only_machine :: machine where
  "tail_only_machine =
     running_machine
       \<lparr>mr := (mr running_machine)
          \<lparr>mr_block := (\<lambda>i. ramp_block\<lparr>rb_nx := (if i = 0 then 1 else 0),
                                       head_length := Fin 0, head_time := Fin 0,
                                       body_length := Fin 0, body_time := Fin 0\<rparr>)\<rparr>\<rparr>"





section \<open>The G-code parser (gcode_parser.cpp)\<close>

subsection \<open>Characters and numbers\<close>

text \<open>
  A line is a C string: the model takes the characters before the terminating NUL as a
  list. Classification of characters is that of the C locale.
\<close>

definition isdigit :: "char \<Rightarrow> bool" where
  "isdigit c = (48 \<le> (of_char c :: nat) \<and> (of_char c :: nat) \<le> 57)"

definition isupper :: "char \<Rightarrow> bool" where
  "isupper c = (65 \<le> (of_char c :: nat) \<and> (of_char c :: nat) \<le> 90)"

definition isspace :: "char \<Rightarrow> bool" where
  "isspace c = ((of_char c :: nat) = 32 \<or> (9 \<le> (of_char c :: nat) \<and> (of_char c :: nat) \<le> 13))"

definition digit_val :: "char \<Rightarrow> nat" where
  "digit_val c = of_char c - 48"

text \<open>
  Arithmetic in a 32-bit \<open>int\<close> is done on unbounded integers and reduced to 32 bits in
  two's complement where the value is used; this is wrap-around at every step. (An
  overflow of a signed integer is undefined in C++.)
\<close>

definition int32_wrap :: "int \<Rightarrow> int" where
  "int32_wrap v = signed_take_bit 31 v"

text \<open>
  \<open>c_atof\<close> of MotateUtilities.h, with the pointer it advances returned as the rest of
  the string. The integer part is collected in an \<open>int\<close>, the fraction in a \<open>float\<close>.
\<close>

fun c_atof_frac :: "string \<Rightarrow> real \<Rightarrow> real \<Rightarrow> real \<times> string" where
  "c_atof_frac [] v m = (v, [])"
| "c_atof_frac (c # cs) v m =
     (if isdigit c then c_atof_frac cs (v + real (digit_val c) * m) (m / 10)
      else (v, c # cs))"

fun c_atof_int :: "string \<Rightarrow> int \<Rightarrow> real \<times> string" where
  "c_atof_int [] v = (of_int (int32_wrap v), [])"
| "c_atof_int (c # cs) v =
     (if c = CHR ''.'' then
        (of_int (int32_wrap v) + fst (c_atof_frac cs 0 (1 / 10)), snd (c_atof_frac cs 0 (1 / 10)))
      else if isdigit c then c_atof_int cs (int (digit_val c) + v * 10)
      else (of_int (int32_wrap v), c # cs))"

fun c_atof :: "string \<Rightarrow> real \<times> string" where
  "c_atof (c # cs) =
     (if c = CHR ''-'' then (fst (c_atof_int cs 0) * - 1, snd (c_atof_int cs 0))
      else c_atof_int (c # cs) 0)"
| "c_atof [] = c_atof_int [] 0"

text \<open>
  \<open>strtol\<close> with base 10 and \<open>atol\<close> of the C library, for a \<open>long\<close> of 32 bits: white
  space is skipped, a sign is optional, the digits that follow are the value, and a value
  out of range is replaced by the nearest bound.
\<close>

fun strtol_digits :: "string \<Rightarrow> int \<Rightarrow> int" where
  "strtol_digits [] v = v"
| "strtol_digits (c # cs) v =
     (if isdigit c then strtol_digits cs (v * 10 + int (digit_val c)) else v)"

definition long_clamp :: "int \<Rightarrow> int" where
  "long_clamp v = max (- (2 ^ 31)) (min (2 ^ 31 - 1) v)"

definition strtol_signed :: "string \<Rightarrow> int" where
  "strtol_signed s =
     (case s of
        [] \<Rightarrow> 0
      | c # cs \<Rightarrow>
          if c = CHR ''-'' then long_clamp (- strtol_digits cs 0)
          else if c = CHR ''+'' then long_clamp (strtol_digits cs 0)
          else long_clamp (strtol_digits (c # cs) 0))"

definition strtol10 :: "string \<Rightarrow> int" where
  "strtol10 s = strtol_signed (dropWhile isspace s)"

definition atol :: "string \<Rightarrow> int" where
  "atol s = strtol10 s"

definition float_to_uint8 :: "(cfloat \<Rightarrow> 8 word) \<Rightarrow> cfloat \<Rightarrow> 8 word" where
  "float_to_uint8 ub f =
     (case f of
        Fin x \<Rightarrow> if 0 \<le> trunc_real x \<and> trunc_real x < 256
                 then word_of_int (trunc_real x) else ub f
      | _ \<Rightarrow> ub f)"

fun trunc :: "cfloat \<Rightarrow> cfloat" where
  "trunc (Fin x) = Fin (of_int (trunc_real x))"
| "trunc f = f"

subsection \<open>Parser state\<close>

datatype cmModalGroup =
    MODAL_GROUP_G0 | MODAL_GROUP_G1 | MODAL_GROUP_G2 | MODAL_GROUP_G3 | MODAL_GROUP_G5
  | MODAL_GROUP_G6 | MODAL_GROUP_G7 | MODAL_GROUP_G8 | MODAL_GROUP_G9 | MODAL_GROUP_G12
  | MODAL_GROUP_G13 | MODAL_GROUP_M4 | MODAL_GROUP_M6 | MODAL_GROUP_M7 | MODAL_GROUP_M8
  | MODAL_GROUP_M9

text \<open>
  The members of the structures \<open>GCodeValue_t\<close> and \<open>GCodeFlag_t\<close>, which have the same
  names in both. The macros \<open>SET_MODAL\<close> and \<open>SET_NON_MODAL\<close> take the name of a member,
  so the two structures are functions from the names: \<open>gv\<close> to the value and \<open>gf\<close> to
  the flag. (Without the members of the Marlin dialect, which is compiled in only with
  \<open>MARLIN_COMPAT_ENABLED\<close>.)
\<close>

datatype gparm =
    p_next_action | p_motion_mode | p_program_flow | p_linenum
  | p_target nat | p_arc_offset nat | p_arc_radius
  | p_F_word | p_P_word | p_S_word | p_H_word | p_L_word
  | p_feed_rate_mode | p_select_plane | p_units_mode | p_coord_system | p_path_control
  | p_distance_mode | p_arc_distance_mode | p_origin_offset_mode | p_absolute_override
  | p_tool | p_tool_select | p_tool_change | p_coolant_mist | p_coolant_flood
  | p_coolant_off | p_spindle_control
  | p_m48_enable | p_fro_control | p_tro_control | p_spo_control
  | p_checksum

text \<open>
  The constants that the parser stores. Those of \<open>gpNextAction\<close> are declared in the
  parser; the others come from headers outside the sources at hand and are kept by name.
\<close>

datatype gconst =
    NEXT_ACTION_DEFAULT | NEXT_ACTION_DWELL | NEXT_ACTION_SET_G10_DATA
  | NEXT_ACTION_GOTO_G28_POSITION | NEXT_ACTION_SET_G28_POSITION | NEXT_ACTION_SEARCH_HOME
  | NEXT_ACTION_SET_ABSOLUTE_ORIGIN | NEXT_ACTION_HOMING_NO_SET
  | NEXT_ACTION_GOTO_G30_POSITION | NEXT_ACTION_SET_G30_POSITION
  | NEXT_ACTION_STRAIGHT_PROBE_ERR | NEXT_ACTION_STRAIGHT_PROBE
  | NEXT_ACTION_STRAIGHT_PROBE_AWAY_ERR | NEXT_ACTION_STRAIGHT_PROBE_AWAY
  | NEXT_ACTION_SET_TL_OFFSET | NEXT_ACTION_SET_ADDITIONAL_TL_OFFSET
  | NEXT_ACTION_CANCEL_TL_OFFSET | NEXT_ACTION_SET_G92_OFFSETS
  | NEXT_ACTION_RESET_G92_OFFSETS | NEXT_ACTION_SUSPEND_G92_OFFSETS
  | NEXT_ACTION_RESUME_G92_OFFSETS | NEXT_ACTION_JSON_COMMAND_SYNC
  | NEXT_ACTION_JSON_COMMAND_ASYNC | NEXT_ACTION_JSON_WAIT
  | MOTION_MODE_STRAIGHT_TRAVERSE | MOTION_MODE_STRAIGHT_FEED | MOTION_MODE_CW_ARC
  | MOTION_MODE_CCW_ARC | MOTION_MODE_CANCEL_MOTION_MODE
  | CANON_PLANE_XY | CANON_PLANE_XZ | CANON_PLANE_YZ
  | INCHES | MILLIMETERS
  | G54 | G55 | G56 | G57 | G58 | G59
  | PATH_EXACT_PATH | PATH_EXACT_STOP | PATH_CONTINUOUS
  | ABSOLUTE_DISTANCE_MODE | INCREMENTAL_DISTANCE_MODE
  | INVERSE_TIME_MODE | UNITS_PER_MINUTE_MODE
  | PROGRAM_STOP | PROGRAM_END
  | SPINDLE_CW | SPINDLE_CCW | SPINDLE_OFF
  | COOLANT_ON | COOLANT_OFF
  | ABSOLUTE_OVERRIDE_ON_DISPLAY_WITH_NO_OFFSETS

text \<open>
  A stored value: the zero that \<open>memset\<close> leaves in a member, a constant, a truth value,
  a \<open>float\<close>, or an integer of 8 or 32 bits.
\<close>

datatype gvalue =
    V_zero | V_const gconst | V_bool bool | V_float cfloat | V_uint8 "8 word"
  | V_uint32 "32 word"

record gcode_state =
  gv :: "gparm \<Rightarrow> gvalue"
  gf :: "gparm \<Rightarrow> bool"
  gp_modals :: "cmModalGroup \<Rightarrow> bool"

text \<open>
  What the parser takes from outside the sources at hand: the signedness of \<open>char\<close> and the
  result of an out-of-range conversion to \<open>uint8_t\<close>, both fixed by the platform; the
  motion mode and the feed rate mode of the canonical machine; and the status of
  \<open>cm_is_alarmed\<close> once \<open>cm_parse_clear\<close> has seen the line. The normalisation of the
  line is a parameter as well: on a comment that is not closed \<open>_normalize_gcode_block\<close>
  steps over the terminating NUL, and what it returns then depends on the bytes that
  happen to follow the line in the buffer. It gives the normalised text, the active
  comment and the block delete flag.
\<close>

record parser_env =
  char_is_signed :: bool
  ub_uint8 :: "cfloat \<Rightarrow> 8 word"
  cm_get_motion_mode :: gvalue
  cm_feed_rate_mode_is_inverse_time :: bool
  cm_is_alarmed :: "string \<Rightarrow> stat_t"
  normalize_gcode_block :: "string \<Rightarrow> string \<times> string \<times> bool"

text \<open>
  The outcome of parsing a line: a status returned before anything is executed, or the
  call of \<open>_execute_gcode_block\<close> on the values and flags collected from the line, which
  dispatches them to the canonical machine and returns what the canonical machine
  answers.
\<close>

datatype parse_outcome = Returned stat_t | Executed gcode_state string


fun returned_status :: "parse_outcome \<Rightarrow> stat_t option" where
  "returned_status (Returned status) = Some status"
| "returned_status (Executed _ _) = None"


subsection \<open>Checksum\<close>

text \<open>
  The loop of \<open>_verify_checksum\<close>: the XOR of the characters read so far, the characters
  before the \<open>*\<close>, and the characters after it when the loop stopped at a \<open>*\<close>.
\<close>

fun checksum_scan :: "nat \<Rightarrow> string \<Rightarrow> nat \<times> string \<times> string option" where
  "checksum_scan acc [] = (acc, [], None)"
| "checksum_scan acc (c # cs) =
     (if c = CHR 0x00 then (acc, [], None)
      else if c = CHR ''*'' then (acc, [], Some cs)
      else if c = CHR 0x0A \<or> c = CHR 0x0D then (acc, c # cs, None)
      else (case checksum_scan (acc XOR of_char c) cs of
              (a, pre, post) \<Rightarrow> (a, c # pre, post)))"

text \<open>
  The checksum of a text as the sender of a line computes it: the XOR of its characters.
\<close>

definition xor_of_chars :: "string \<Rightarrow> nat" where
  "xor_of_chars pre = foldr (\<lambda>c a. of_char c XOR a) pre 0"

text \<open>The value of a \<open>char\<close> with the given bits in a comparison with a \<open>long\<close>.\<close>

definition char_to_long :: "bool \<Rightarrow> nat \<Rightarrow> int" where
  "char_to_long sgn_char n = (if sgn_char \<and> 128 \<le> n then int n - 256 else int n)"

text \<open>
  \<open>_verify_checksum\<close> gives the status, the line as it leaves it (cut at the \<open>*\<close>), and
  whether it set the flag \<open>gf.checksum\<close>.
\<close>

definition verify_checksum :: "parser_env \<Rightarrow> string \<Rightarrow> stat_t \<times> string \<times> bool" where
  "verify_checksum penv str =
     (let has_line_number = (case str of [] \<Rightarrow> False | c # _ \<Rightarrow> c = CHR ''N'')
      in case checksum_scan 0 str of
           (checksum, pre, Some post) \<Rightarrow>
             if strtol10 post \<noteq> char_to_long (char_is_signed penv) checksum
               then (STAT_CHECKSUM_MATCH_FAILED, pre, True)
             else if \<not> has_line_number
               then (STAT_MISSING_LINE_NUMBER_WITH_CHECKSUM, pre, True)
             else (STAT_OK, pre, True)
         | (checksum, pre, None) \<Rightarrow> (STAT_OK, takeWhile (\<lambda>c. c \<noteq> CHR 0x00) str, False))"

subsection \<open>Words\<close>

definition get_next_gcode_word :: "string \<Rightarrow> stat_t \<times> char \<times> cfloat \<times> 32 word \<times> string" where
  "get_next_gcode_word pstr =
     (case pstr of
        [] \<Rightarrow> (STAT_COMPLETE, CHR 0x00, Fin 0, 0, [])
      | c # cs \<Rightarrow>
          if c = CHR 0x00 then (STAT_COMPLETE, CHR 0x00, Fin 0, 0, pstr)
          else if \<not> isupper c then (STAT_INVALID_OR_MALFORMED_COMMAND, c, Fin 0, 0, pstr)
          else if snd (c_atof cs) = cs then (STAT_BAD_NUMBER_FORMAT, c, Fin (fst (c_atof cs)),
                                             word_of_int (atol cs), cs)
          else (STAT_OK, c, Fin (fst (c_atof cs)), word_of_int (atol cs), snd (c_atof cs)))"

definition point :: "parser_env \<Rightarrow> cfloat \<Rightarrow> nat" where
  "point penv v = unat (float_to_uint8 (ub_uint8 penv) (v * Fin 10 - trunc v * Fin 10))"

definition SET_MODAL ::
  "cmModalGroup \<Rightarrow> gparm \<Rightarrow> gvalue \<Rightarrow> gcode_state \<Rightarrow> stat_t \<times> gcode_state" where
  "SET_MODAL m parm val st =
     (STAT_OK, st\<lparr>gv := (gv st)(parm := val), gf := (gf st)(parm := True),
                  gp_modals := (gp_modals st)(m := True)\<rparr>)"

definition SET_NON_MODAL :: "gparm \<Rightarrow> gvalue \<Rightarrow> gcode_state \<Rightarrow> stat_t \<times> gcode_state" where
  "SET_NON_MODAL parm val st =
     (STAT_OK, st\<lparr>gv := (gv st)(parm := val), gf := (gf st)(parm := True)\<rparr>)"

text \<open>The \<open>switch\<close> on the number of a G word, and the one on the number of an M word.\<close>

definition g_word :: "parser_env \<Rightarrow> cfloat \<Rightarrow> gcode_state \<Rightarrow> stat_t \<times> gcode_state" where
  "g_word penv v st =
     (let n = unat (float_to_uint8 (ub_uint8 penv) v); pt = point penv v;
          unsupported = (STAT_GCODE_COMMAND_UNSUPPORTED, st)
      in if n = 0 then SET_MODAL MODAL_GROUP_G1 p_motion_mode (V_const MOTION_MODE_STRAIGHT_TRAVERSE) st
         else if n = 1 then SET_MODAL MODAL_GROUP_G1 p_motion_mode (V_const MOTION_MODE_STRAIGHT_FEED) st
         else if n = 2 then SET_MODAL MODAL_GROUP_G1 p_motion_mode (V_const MOTION_MODE_CW_ARC) st
         else if n = 3 then SET_MODAL MODAL_GROUP_G1 p_motion_mode (V_const MOTION_MODE_CCW_ARC) st
         else if n = 4 then SET_NON_MODAL p_next_action (V_const NEXT_ACTION_DWELL) st
         else if n = 10 then SET_MODAL MODAL_GROUP_G0 p_next_action (V_const NEXT_ACTION_SET_G10_DATA) st
         else if n = 17 then SET_MODAL MODAL_GROUP_G2 p_select_plane (V_const CANON_PLANE_XY) st
         else if n = 18 then SET_MODAL MODAL_GROUP_G2 p_select_plane (V_const CANON_PLANE_XZ) st
         else if n = 19 then SET_MODAL MODAL_GROUP_G2 p_select_plane (V_const CANON_PLANE_YZ) st
         else if n = 20 then SET_MODAL MODAL_GROUP_G6 p_units_mode (V_const INCHES) st
         else if n = 21 then SET_MODAL MODAL_GROUP_G6 p_units_mode (V_const MILLIMETERS) st
         else if n = 28 then
           (if pt = 0 then SET_MODAL MODAL_GROUP_G0 p_next_action (V_const NEXT_ACTION_GOTO_G28_POSITION) st
            else if pt = 1 then SET_MODAL MODAL_GROUP_G0 p_next_action (V_const NEXT_ACTION_SET_G28_POSITION) st
            else if pt = 2 then SET_NON_MODAL p_next_action (V_const NEXT_ACTION_SEARCH_HOME) st
            else if pt = 3 then SET_NON_MODAL p_next_action (V_const NEXT_ACTION_SET_ABSOLUTE_ORIGIN) st
            else if pt = 4 then SET_NON_MODAL p_next_action (V_const NEXT_ACTION_HOMING_NO_SET) st
            else unsupported)
         else if n = 30 then
           (if pt = 0 then SET_MODAL MODAL_GROUP_G0 p_next_action (V_const NEXT_ACTION_GOTO_G30_POSITION) st
            else if pt = 1 then SET_MODAL MODAL_GROUP_G0 p_next_action (V_const NEXT_ACTION_SET_G30_POSITION) st
            else unsupported)
         else if n = 38 then
           (if pt = 2 then SET_NON_MODAL p_next_action (V_const NEXT_ACTION_STRAIGHT_PROBE_ERR) st
            else if pt = 3 then SET_NON_MODAL p_next_action (V_const NEXT_ACTION_STRAIGHT_PROBE) st
            else if pt = 4 then SET_NON_MODAL p_next_action (V_const NEXT_ACTION_STRAIGHT_PROBE_AWAY_ERR) st
            else if pt = 5 then SET_NON_MODAL p_next_action (V_const NEXT_ACTION_STRAIGHT_PROBE_AWAY) st
            else unsupported)
         else if n = 40 then (STAT_OK, st)
         else if n = 43 then
           (if pt = 0 then SET_NON_MODAL p_next_action (V_const NEXT_ACTION_SET_TL_OFFSET) st
            else if pt = 2 then SET_NON_MODAL p_next_action (V_const NEXT_ACTION_SET_ADDITIONAL_TL_OFFSET) st
            else unsupported)
         else if n = 49 then SET_NON_MODAL p_next_action (V_const NEXT_ACTION_CANCEL_TL_OFFSET) st
         else if n = 53 then SET_NON_MODAL p_absolute_override
                               (V_const ABSOLUTE_OVERRIDE_ON_DISPLAY_WITH_NO_OFFSETS) st
         else if n = 54 then SET_MODAL MODAL_GROUP_G12 p_coord_system (V_const G54) st
         else if n = 55 then SET_MODAL MODAL_GROUP_G12 p_coord_system (V_const G55) st
         else if n = 56 then SET_MODAL MODAL_GROUP_G12 p_coord_system (V_const G56) st
         else if n = 57 then SET_MODAL MODAL_GROUP_G12 p_coord_system (V_const G57) st
         else if n = 58 then SET_MODAL MODAL_GROUP_G12 p_coord_system (V_const G58) st
         else if n = 59 then SET_MODAL MODAL_GROUP_G12 p_coord_system (V_const G59) st
         else if n = 61 then
           (if pt = 0 then SET_MODAL MODAL_GROUP_G13 p_path_control (V_const PATH_EXACT_PATH) st
            else if pt = 1 then SET_MODAL MODAL_GROUP_G13 p_path_control (V_const PATH_EXACT_STOP) st
            else unsupported)
         else if n = 64 then SET_MODAL MODAL_GROUP_G13 p_path_control (V_const PATH_CONTINUOUS) st
         else if n = 80 then SET_MODAL MODAL_GROUP_G1 p_motion_mode
                               (V_const MOTION_MODE_CANCEL_MOTION_MODE) st
         else if n = 90 then
           (if pt = 0 then SET_MODAL MODAL_GROUP_G3 p_distance_mode (V_const ABSOLUTE_DISTANCE_MODE) st
            else if pt = 1 then SET_MODAL MODAL_GROUP_G3 p_arc_distance_mode
                                  (V_const ABSOLUTE_DISTANCE_MODE) st
            else unsupported)
         else if n = 91 then
           (if pt = 0 then SET_MODAL MODAL_GROUP_G3 p_distance_mode
                             (V_const INCREMENTAL_DISTANCE_MODE) st
            else if pt = 1 then SET_MODAL MODAL_GROUP_G3 p_arc_distance_mode
                                  (V_const INCREMENTAL_DISTANCE_MODE) st
            else unsupported)
         else if n = 92 then
           (if pt = 0 then SET_MODAL MODAL_GROUP_G0 p_next_action (V_const NEXT_ACTION_SET_G92_OFFSETS) st
            else if pt = 1 then SET_NON_MODAL p_next_action (V_const NEXT_ACTION_RESET_G92_OFFSETS) st
            else if pt = 2 then SET_NON_MODAL p_next_action (V_const NEXT_ACTION_SUSPEND_G92_OFFSETS) st
            else if pt = 3 then SET_NON_MODAL p_next_action (V_const NEXT_ACTION_RESUME_G92_OFFSETS) st
            else unsupported)
         else if n = 93 then SET_MODAL MODAL_GROUP_G5 p_feed_rate_mode (V_const INVERSE_TIME_MODE) st
         else if n = 94 then SET_MODAL MODAL_GROUP_G5 p_feed_rate_mode
                               (V_const UNITS_PER_MINUTE_MODE) st
         else unsupported)"

definition m_word :: "parser_env \<Rightarrow> cfloat \<Rightarrow> gcode_state \<Rightarrow> stat_t \<times> gcode_state" where
  "m_word penv v st =
     (let n = unat (float_to_uint8 (ub_uint8 penv) v); pt = point penv v;
          unsupported = (STAT_GCODE_COMMAND_UNSUPPORTED, st)
      in if n = 0 \<or> n = 1 \<or> n = 60 then SET_MODAL MODAL_GROUP_M4 p_program_flow (V_const PROGRAM_STOP) st
         else if n = 2 \<or> n = 30 then SET_MODAL MODAL_GROUP_M4 p_program_flow (V_const PROGRAM_END) st
         else if n = 3 then SET_MODAL MODAL_GROUP_M7 p_spindle_control (V_const SPINDLE_CW) st
         else if n = 4 then SET_MODAL MODAL_GROUP_M7 p_spindle_control (V_const SPINDLE_CCW) st
         else if n = 5 then SET_MODAL MODAL_GROUP_M7 p_spindle_control (V_const SPINDLE_OFF) st
         else if n = 6 then SET_NON_MODAL p_tool_change (V_bool True) st
         else if n = 7 then SET_MODAL MODAL_GROUP_M8 p_coolant_mist (V_const COOLANT_ON) st
         else if n = 8 then SET_MODAL MODAL_GROUP_M8 p_coolant_flood (V_const COOLANT_ON) st
         else if n = 9 then SET_MODAL MODAL_GROUP_M8 p_coolant_off (V_const COOLANT_OFF) st
         else if n = 48 then SET_MODAL MODAL_GROUP_M9 p_m48_enable (V_bool True) st
         else if n = 49 then SET_MODAL MODAL_GROUP_M9 p_m48_enable (V_bool False) st
         else if n = 50 then
           (if pt = 0 then SET_MODAL MODAL_GROUP_M9 p_fro_control (V_bool True) st
            else if pt = 1 then SET_MODAL MODAL_GROUP_M9 p_tro_control (V_bool True) st
            else unsupported)
         else if n = 51 then SET_MODAL MODAL_GROUP_M9 p_spo_control (V_bool True) st
         else if n = 100 then
           (if pt = 0 then SET_NON_MODAL p_next_action (V_const NEXT_ACTION_JSON_COMMAND_SYNC) st
            else if pt = 1 then SET_NON_MODAL p_next_action (V_const NEXT_ACTION_JSON_COMMAND_ASYNC) st
            else unsupported)
         else if n = 101 then SET_NON_MODAL p_next_action (V_const NEXT_ACTION_JSON_WAIT) st
         else (STAT_MCODE_COMMAND_UNSUPPORTED, st))"

text \<open>The \<open>switch\<close> on the letter of a word. The axes are numbered X, Y, Z, A, B, C, U, V, W.\<close>

definition parse_word ::
  "parser_env \<Rightarrow> char \<Rightarrow> cfloat \<Rightarrow> 32 word \<Rightarrow> gcode_state \<Rightarrow> stat_t \<times> gcode_state" where
  "parse_word penv letter v value_int st =
     (if letter = CHR ''G'' then g_word penv v st
      else if letter = CHR ''M'' then m_word penv v st
      else if letter = CHR ''T'' then
        SET_NON_MODAL p_tool_select (V_uint8 (float_to_uint8 (ub_uint8 penv) (trunc v))) st
      else if letter = CHR ''F'' then SET_NON_MODAL p_F_word (V_float v) st
      else if letter = CHR ''P'' then SET_NON_MODAL p_P_word (V_float v) st
      else if letter = CHR ''S'' then SET_NON_MODAL p_S_word (V_float v) st
      else if letter = CHR ''X'' then SET_NON_MODAL (p_target 0) (V_float v) st
      else if letter = CHR ''Y'' then SET_NON_MODAL (p_target 1) (V_float v) st
      else if letter = CHR ''Z'' then SET_NON_MODAL (p_target 2) (V_float v) st
      else if letter = CHR ''A'' then SET_NON_MODAL (p_target 3) (V_float v) st
      else if letter = CHR ''B'' then SET_NON_MODAL (p_target 4) (V_float v) st
      else if letter = CHR ''C'' then SET_NON_MODAL (p_target 5) (V_float v) st
      else if letter = CHR ''U'' then SET_NON_MODAL (p_target 6) (V_float v) st
      else if letter = CHR ''V'' then SET_NON_MODAL (p_target 7) (V_float v) st
      else if letter = CHR ''W'' then SET_NON_MODAL (p_target 8) (V_float v) st
      else if letter = CHR ''H'' then
        SET_NON_MODAL p_H_word (V_uint8 (float_to_uint8 (ub_uint8 penv) v)) st
      else if letter = CHR ''I'' then SET_NON_MODAL (p_arc_offset 0) (V_float v) st
      else if letter = CHR ''J'' then SET_NON_MODAL (p_arc_offset 1) (V_float v) st
      else if letter = CHR ''K'' then SET_NON_MODAL (p_arc_offset 2) (V_float v) st
      else if letter = CHR ''L'' then
        SET_NON_MODAL p_L_word (V_uint8 (float_to_uint8 (ub_uint8 penv) v)) st
      else if letter = CHR ''R'' then SET_NON_MODAL p_arc_radius (V_float v) st
      else if letter = CHR ''N'' then SET_NON_MODAL p_linenum (V_uint32 value_int) st
      else (STAT_GCODE_COMMAND_UNSUPPORTED, st))"

subsection \<open>Blocks\<close>

lemma c_atof_frac_length: "length (snd (c_atof_frac s v m)) \<le> length s"
  by (induction s v m rule: c_atof_frac.induct) (simp_all add: le_SucI)

lemma c_atof_int_length: "length (snd (c_atof_int s v)) \<le> length s"
  by (induction s v rule: c_atof_int.induct) (simp_all add: le_SucI c_atof_frac_length)

lemma c_atof_length: "length (snd (c_atof s)) \<le> length s"
proof (cases s)
  case Nil
  then show ?thesis by simp
next
  case (Cons c cs)
  have "length (snd (c_atof_int (c # cs) 0)) \<le> Suc (length cs)"
    using c_atof_int_length [of "c # cs" 0] by simp
  moreover have "length (snd (c_atof_int cs 0)) \<le> Suc (length cs)"
    using c_atof_int_length [of cs 0] by simp
  ultimately show ?thesis
    using Cons by (simp del: c_atof_int.simps)
qed

text \<open>
  The loop of \<open>_parse_gcode_block\<close> over the words of the line; it ends with the first
  status that is not \<open>STAT_OK\<close>, from the reading of a word or from the \<open>switch\<close>.
\<close>

function parse_words :: "parser_env \<Rightarrow> string \<Rightarrow> gcode_state \<Rightarrow> stat_t \<times> gcode_state" where
  "parse_words penv pstr st =
     (case get_next_gcode_word pstr of
        (status, letter, v, value_int, rest) \<Rightarrow>
          if status = STAT_OK then
            (case parse_word penv letter v value_int st of
               (status', st') \<Rightarrow>
                 if status' \<noteq> STAT_OK then (status', st') else parse_words penv rest st')
          else (status, st))"
  by pat_completeness auto
termination
  apply (relation "measure (\<lambda>(penv, pstr, st). length pstr)")
   apply simp
  apply (auto simp: get_next_gcode_word_def less_Suc_eq_le c_atof_length
               split: list.splits if_splits)
  done

declare parse_words.simps [simp del]

text \<open>The modal group checks of \<open>_validate_gcode_block\<close> are commented out in the code.\<close>

definition validate_gcode_block :: "gcode_state \<Rightarrow> string \<Rightarrow> stat_t" where
  "validate_gcode_block st active_comment = STAT_OK"

definition parse_gcode_block ::
  "parser_env \<Rightarrow> (cmModalGroup \<Rightarrow> bool) \<Rightarrow> string \<Rightarrow> string \<Rightarrow> parse_outcome" where
  "parse_gcode_block penv gp0 buf active_comment =
     (let st0 = \<lparr>gv = (\<lambda>_. V_zero)(p_motion_mode := cm_get_motion_mode penv),
                 gf = (\<lambda>_. False), gp_modals = gp0\<rparr>;
          st1 = (if cm_feed_rate_mode_is_inverse_time penv
                 then st0\<lparr>gv := (gv st0)(p_F_word := V_float (Fin 0)),
                          gf := (gf st0)(p_F_word := True)\<rparr>
                 else st0)
      in case parse_words penv buf st1 of
           (status, st) \<Rightarrow>
             if status \<noteq> STAT_OK \<and> status \<noteq> STAT_COMPLETE then Returned status
             else if validate_gcode_block st active_comment \<noteq> STAT_OK
               then Returned (validate_gcode_block st active_comment)
             else Executed st active_comment)"

definition gcode_parser ::
  "parser_env \<Rightarrow> (cmModalGroup \<Rightarrow> bool) \<Rightarrow> string \<Rightarrow> parse_outcome" where
  "gcode_parser penv gp0 block =
     (case verify_checksum penv block of
        (check_ret, str, checksum_flag) \<Rightarrow>
          if check_ret \<noteq> STAT_OK then Returned check_ret
          else
            (case normalize_gcode_block penv str of
               (str', active_comment, block_delete_flag) \<Rightarrow>
                 if str' = [] \<or> hd str' = CHR 0x00 then Returned STAT_OK
                 else if cm_is_alarmed penv str' \<noteq> STAT_OK
                   then Returned (cm_is_alarmed penv str')
                 else if block_delete_flag then Returned STAT_NOOP
                 else parse_gcode_block penv gp0 str' active_comment))"

text \<open>
  An instance of the parameters of the parser: \<open>char\<close> is unsigned, the machine is in
  the motion mode of G1 with its feed rate in units per minute and not alarmed, and the
  line is in normal form already, with no comment and no block delete.
\<close>

definition demo_parser_env :: parser_env where
  "demo_parser_env =
     \<lparr>char_is_signed = False, ub_uint8 = (\<lambda>_. 0),
      cm_get_motion_mode = V_const MOTION_MODE_STRAIGHT_FEED,
      cm_feed_rate_mode_is_inverse_time = False,
      cm_is_alarmed = (\<lambda>_. STAT_OK),
      normalize_gcode_block = (\<lambda>s. (s, [], False))\<rparr>"

definition no_modals :: "cmModalGroup \<Rightarrow> bool" where
  "no_modals = (\<lambda>_. False)"

section \<open>The float formatter (MotateUtilities)\<close>














subsection \<open>Digit strings\<close>





section \<open>Properties of the stepper\<close>

subsection \<open>Dwells\<close>

lemma dwell_ticks_ge1: "1 \<le> unat (dwell_ticks (st_pre (st_prep_dwell cfg us s)))"
proof -
  have "(1::32 word) \<le> max x 1" for x by simp
  then show ?thesis
    by (simp add: st_prep_dwell_def word_le_nat_alt)
qed

lemma systick_count:
  "dwell_event_registered t \<Longrightarrow> k < unat (dwell_ticks_downcount (st_run t)) \<Longrightarrow>
   (systick env ^^ k) t
     = t\<lparr>st_run := (st_run t)
           \<lparr>dwell_ticks_downcount := dwell_ticks_downcount (st_run t) - of_nat k\<rparr>\<rparr>"
proof (induction k)
  case 0
  then show ?case by simp
next
  case (Suc k)
  let ?d = "dwell_ticks_downcount (st_run t)"
  have k: "k < unat ?d" using Suc.prems by simp
  have ne: "?d - of_nat k - 1 \<noteq> 0"
  proof
    assume "?d - of_nat k - 1 = 0"
    then have "?d = of_nat (Suc k)" by (simp add: algebra_simps)
    then have "unat ?d = unat (of_nat (Suc k) :: 32 word)" by simp
    also have "\<dots> \<le> Suc k" unfolding unat_of_nat by (rule mod_less_eq_dividend)
    finally show False using Suc.prems by simp
  qed
  show ?case
    using Suc.IH[OF Suc.prems(1) k] Suc.prems(1) ne
    by (simp add: systick_def dwell_systick_event_def Let_def algebra_simps)
qed

lemma systick_fire:
  assumes "dwell_event_registered t" "dwell_ticks_downcount (st_run t) \<noteq> 0"
  shows "(systick env ^^ unat (dwell_ticks_downcount (st_run t))) t
     = load_move env (t\<lparr>st_run := (st_run t)\<lparr>dwell_ticks_downcount := 0\<rparr>,
                        dwell_event_registered := False\<rparr>)"
proof -
  let ?d = "dwell_ticks_downcount (st_run t)"
  have pos: "0 < unat ?d" using assms(2) by (simp add: unat_gt_0)
  then obtain k where k: "unat ?d = Suc k" by (cases "unat ?d") auto
  have "?d = of_nat (unat ?d)" by simp
  then have "?d = of_nat (Suc k)" unfolding k .
  then have z: "?d - of_nat k - 1 = 0" by simp
  have "(systick env ^^ k) t
          = t\<lparr>st_run := (st_run t)\<lparr>dwell_ticks_downcount := ?d - of_nat k\<rparr>\<rparr>"
    using systick_count[OF assms(1), of k env] k by simp
  then show ?thesis
    using assms(1) z by (simp add: k systick_def dwell_systick_event_def Let_def)
qed

text \<open>
  Claim C10. For every dwell duration \<open>us\<close> (zero, shorter than one tick of the dwell
  clock, negative, infinite or NaN, and whatever an out-of-range conversion gives),
  \<open>st_prep_dwell\<close> sets \<open>dwell_ticks\<close> to at least 1. Therefore the countdown of the
  SysTick event, which decrements before it compares with zero, ends: started with this
  count, it goes down by one at each of the first ticks without wrapping around, and at
  tick number \<open>dwell_ticks\<close> it reaches zero, unregisters the event and runs the loader.
\<close>

theorem st_prep_dwell_at_least_one_tick:
  "1 \<le> unat (dwell_ticks (st_pre (st_prep_dwell env us s))) \<and>
   (\<forall>t. dwell_event_registered t \<and>
        dwell_ticks_downcount (st_run t) = dwell_ticks (st_pre (st_prep_dwell env us s)) \<longrightarrow>
        (\<forall>k < unat (dwell_ticks_downcount (st_run t)).
           (systick env ^^ k) t =
             t\<lparr>st_run := (st_run t)
                 \<lparr>dwell_ticks_downcount := dwell_ticks_downcount (st_run t) - of_nat k\<rparr>\<rparr>) \<and>
        (systick env ^^ unat (dwell_ticks_downcount (st_run t))) t =
          load_move env (t\<lparr>st_run := (st_run t)\<lparr>dwell_ticks_downcount := 0\<rparr>,
                           dwell_event_registered := False\<rparr>))"
proof (intro conjI allI impI)
  show ge: "1 \<le> unat (dwell_ticks (st_pre (st_prep_dwell env us s)))"
    by (rule dwell_ticks_ge1)
  fix t :: machine
  assume t: "dwell_event_registered t \<and>
        dwell_ticks_downcount (st_run t) = dwell_ticks (st_pre (st_prep_dwell env us s))"
  then have ne: "dwell_ticks_downcount (st_run t) \<noteq> 0"
    using ge by (auto simp: unat_gt_0 [symmetric] simp del: unat_gt_0)
  show "(systick env ^^ unat (dwell_ticks_downcount (st_run t))) t =
          load_move env (t\<lparr>st_run := (st_run t)\<lparr>dwell_ticks_downcount := 0\<rparr>,
                           dwell_event_registered := False\<rparr>)"
    using systick_fire [OF conjunct1 [OF t] ne] .
  fix k
  assume "k < unat (dwell_ticks_downcount (st_run t))"
  then show "(systick env ^^ k) t =
             t\<lparr>st_run := (st_run t)
                 \<lparr>dwell_ticks_downcount := dwell_ticks_downcount (st_run t) - of_nat k\<rparr>\<rparr>"
    using systick_count [OF conjunct1 [OF t]] by blast
qed

text \<open>
  A dwell of 3000 microseconds on the idle machine: three ticks are prepared, the loader
  registers the event with a count of three, and the third tick ends the dwell.
\<close>

theorem st_prep_dwell_at_least_one_tick_witness:
  "dwell_event_registered
     (load_move demo_env (st_prep_dwell demo_env (Fin 3000) idle_machine)) \<and>
   dwell_ticks_downcount
     (st_run (load_move demo_env (st_prep_dwell demo_env (Fin 3000) idle_machine))) = 3 \<and>
   (systick demo_env ^^ 3) (load_move demo_env (st_prep_dwell demo_env (Fin 3000) idle_machine))
     = load_move demo_env
         ((load_move demo_env (st_prep_dwell demo_env (Fin 3000) idle_machine))
            \<lparr>st_run :=
               (st_run (load_move demo_env (st_prep_dwell demo_env (Fin 3000) idle_machine)))
               \<lparr>dwell_ticks_downcount := 0\<rparr>, dwell_event_registered := False\<rparr>)"
proof -
  let ?t = "load_move demo_env (st_prep_dwell demo_env (Fin 3000) idle_machine)"
  have d: "dwell_ticks (st_pre (st_prep_dwell demo_env (Fin 3000) idle_machine)) = 3"
    by (simp add: st_prep_dwell_def demo_env_def float_to_uint32_def trunc_real_def)
  have r: "dwell_event_registered ?t"
    by (simp add: load_move_def st_runtime_isbusy_def st_prep_dwell_def idle_machine_def
        st_request_exec_move_def)
  have c: "dwell_ticks_downcount (st_run ?t) = 3"
    using d by (simp add: load_move_def st_runtime_isbusy_def st_prep_dwell_def idle_machine_def
        st_request_exec_move_def)
  show ?thesis
    using st_prep_dwell_at_least_one_tick [of demo_env "Fin 3000" idle_machine] d r c
    by simp
qed

subsection \<open>Ticks of a segment\<close>






subsection \<open>The accumulator at a change of direction\<close>








section \<open>Properties of the G-code parser\<close>

subsection \<open>Checksums\<close>

lemma checksum_scan_star:
  assumes "\<forall>c\<in>set pre. c \<noteq> CHR 0x00 \<and> c \<noteq> CHR ''*'' \<and> c \<noteq> CHR 0x0A \<and> c \<noteq> CHR 0x0D"
  shows "checksum_scan acc (pre @ CHR ''*'' # post)
           = (acc XOR xor_of_chars pre, pre, Some post)"
  using assms
proof (induction pre arbitrary: acc)
  case Nil
  then show ?case by (simp add: xor_of_chars_def)
next
  case (Cons c cs)
  have "(acc XOR of_char c) XOR xor_of_chars cs = acc XOR xor_of_chars (c # cs)"
    by (simp add: xor_of_chars_def xor.assoc)
  then show ?case using Cons by simp
qed

text \<open>
  Claim C7, as amended. Let a line carry a checksum field: a \<open>*\<close> that is preceded by
  the text \<open>pre\<close>, without a line end in it, and followed by \<open>post\<close>. If the decimal
  value read from \<open>post\<close> differs from the XOR of the characters of \<open>pre\<close>, the parser
  returns \<open>CHECKSUM_MATCH_FAILED\<close>, whether or not the line has a line number. If the two
  agree and the line does not begin with the letter N, the parser returns
  \<open>MISSING_LINE_NUMBER_WITH_CHECKSUM\<close>. In both cases the status is returned before the
  line is normalised and parsed: it is the same for every normalisation and every state
  of the canonical machine.
\<close>

theorem gcode_parser_checksum:
  assumes "\<forall>c\<in>set pre. c \<noteq> CHR 0x00 \<and> c \<noteq> CHR ''*'' \<and> c \<noteq> CHR 0x0A \<and> c \<noteq> CHR 0x0D"
  shows "(strtol10 post \<noteq> char_to_long (char_is_signed penv) (xor_of_chars pre) \<longrightarrow>
            gcode_parser penv gp0 (pre @ CHR ''*'' # post) = Returned STAT_CHECKSUM_MATCH_FAILED) \<and>
         (strtol10 post = char_to_long (char_is_signed penv) (xor_of_chars pre) \<and>
          (\<forall>cs. pre \<noteq> CHR ''N'' # cs) \<longrightarrow>
            gcode_parser penv gp0 (pre @ CHR ''*'' # post)
              = Returned STAT_MISSING_LINE_NUMBER_WITH_CHECKSUM)"
proof -
  have scan: "checksum_scan 0 (pre @ CHR ''*'' # post) = (xor_of_chars pre, pre, Some post)"
    using checksum_scan_star [OF assms, of 0 post] by simp
  have n: "(\<forall>cs. pre \<noteq> CHR ''N'' # cs) \<Longrightarrow>
           \<not> (case pre @ CHR ''*'' # post of [] \<Rightarrow> False | c # _ \<Rightarrow> c = CHR ''N'')"
    by (cases pre) auto
  show ?thesis
    using n by (auto simp: gcode_parser_def verify_checksum_def scan Let_def)
qed

text \<open>
  The line \<open>N5G1X1*72\<close>, whose text has the checksum 100, fails the match; the line
  \<open>G1*118\<close> has the right checksum and no line number.
\<close>

theorem gcode_parser_checksum_witness:
  "strtol10 ''72'' \<noteq> char_to_long (char_is_signed demo_parser_env) (xor_of_chars ''N5G1X1'') \<and>
   gcode_parser demo_parser_env no_modals ''N5G1X1*72'' = Returned STAT_CHECKSUM_MATCH_FAILED \<and>
   strtol10 ''118'' = char_to_long (char_is_signed demo_parser_env) (xor_of_chars ''G1'') \<and>
   gcode_parser demo_parser_env no_modals ''G1*118''
     = Returned STAT_MISSING_LINE_NUMBER_WITH_CHECKSUM"
proof -
  have a1: "\<forall>c\<in>set ''N5G1X1''. c \<noteq> CHR 0x00 \<and> c \<noteq> CHR ''*'' \<and> c \<noteq> CHR 0x0A \<and> c \<noteq> CHR 0x0D"
    by simp
  have b1: "strtol10 ''72'' \<noteq> char_to_long (char_is_signed demo_parser_env) (xor_of_chars ''N5G1X1'')"
    by code_simp
  have a2: "\<forall>c\<in>set ''G1''. c \<noteq> CHR 0x00 \<and> c \<noteq> CHR ''*'' \<and> c \<noteq> CHR 0x0A \<and> c \<noteq> CHR 0x0D"
    by simp
  have b2: "strtol10 ''118'' = char_to_long (char_is_signed demo_parser_env) (xor_of_chars ''G1'')"
    by code_simp
  have c2: "\<forall>cs. ''G1'' \<noteq> CHR ''N'' # cs" by simp
  show ?thesis
    using gcode_parser_checksum [OF a1, of "''72''" demo_parser_env no_modals]
      gcode_parser_checksum [OF a2, of "''118''" demo_parser_env no_modals] a1 b1 a2 b2 c2
    by simp
qed


text \<open>
  Claim C7 as stated fails. The line \<open>G1*0\<close> carries a checksum field and has no leading
  line number; the parser returns \<open>CHECKSUM_MATCH_FAILED\<close> for it, not
  \<open>MISSING_LINE_NUMBER_WITH_CHECKSUM\<close>.
\<close>

theorem gcode_parser_checksum_mismatch_first:
  "returned_status (gcode_parser demo_parser_env no_modals ''G1*0'')
     = Some STAT_CHECKSUM_MATCH_FAILED"
  by code_simp

subsection \<open>Modal groups\<close>










section \<open>Properties of the float formatter\<close>
















subsection \<open>Taking the zeros from the end\<close>



subsection \<open>The round trip\<close>












section \<open>Properties of the runtime executor\<close>

subsection \<open>Normalisation of a block\<close>




subsection \<open>Frames of one segment\<close>

lemma prep_calls_upd [simp]:
  "prep_calls (upd_mr f s) = prep_calls s"
  "prep_calls (upd_buf i g s) = prep_calls s"
  "prep_calls (upd_run_block h s) = prep_calls s"
  "prep_calls (st_request_forward_plan s) = prep_calls s"
  "prep_calls (snd (cm_panic st s)) = prep_calls s"
  by (simp_all add: upd_mr_def upd_buf_def upd_run_block_def st_request_forward_plan_def
        cm_panic_def)

lemma mr_upd [simp]:
  "mr (upd_mr f s) = f (mr s)"
  "mr (upd_buf i g s) = mr s"
  "mr (st_request_forward_plan s) = mr s"
  "mr (snd (cm_panic st s)) = mr s"
  by (simp_all add: upd_mr_def upd_buf_def st_request_forward_plan_def cm_panic_def)

lemma st_prep_line_frame:
  "prep_calls (snd (st_prep_line env t f st s)) = prep_calls s @ [PREP_LINE]"
  "mr (snd (st_prep_line env t f st s)) = mr s"
  "bufs (snd (st_prep_line env t f st s)) = bufs s"
  by (simp_all add: st_prep_line_def Let_def cm_panic_def)



lemma exec_aline_segment_prep_calls:
  "prep_calls (snd (exec_aline_segment env s)) = prep_calls s @ [PREP_LINE]"
proof -
  define m3 where "m3 = segment_steps env (segment_target env s)"
  define s1 where "s1 = s\<lparr>mr := m3, run_time_remaining :=
      (if run_time_remaining s - segment_time m3 < Fin 0 then Fin 0
       else run_time_remaining s - segment_time m3)\<rparr>"
  obtain st s2 where p:
    "st_prep_line env (segment_travel m3) (following_error m3) (segment_time m3) s1 = (st, s2)"
    by (metis surj_pair)
  have "prep_calls s2 = prep_calls s1 @ [PREP_LINE]"
    using st_prep_line_frame(1) [of env "segment_travel m3" "following_error m3"
        "segment_time m3" s1] p by simp
  moreover have "prep_calls s1 = prep_calls s" by (simp add: s1_def)
  ultimately show ?thesis
    unfolding exec_aline_segment_def Let_def m3_def [symmetric] s1_def [symmetric] p
    by simp
qed

subsection \<open>The velocity of the first segment of a section\<close>







lemma run_block_upd_buf [simp]: "run_block (upd_buf i f s) = run_block s"
  by (simp add: run_block_def)









subsection \<open>One prepared segment for each call\<close>

lemma new_section_prep_calls [simp]:
  "prep_calls (snd (tail_new_section env s)) = prep_calls s"
  "prep_calls (snd (body_new_section env s)) = prep_calls s"
  "prep_calls (snd (head_new_section env s)) = prep_calls s"
  by (simp_all add: tail_new_section_def body_new_section_def head_new_section_def Let_def)

lemma exec_aline_tail_prep_calls:
  "prep_calls (snd (exec_aline_tail env bf s)) = prep_calls s
   \<or> prep_calls (snd (exec_aline_tail env bf s)) = prep_calls s @ [PREP_LINE]"
  unfolding exec_aline_tail_def
  by (simp add: split_def Let_def exec_aline_segment_prep_calls split: option.splits)

lemma exec_aline_body_prep_calls:
  "prep_calls (snd (exec_aline_body env bf s)) = prep_calls s
   \<or> prep_calls (snd (exec_aline_body env bf s)) = prep_calls s @ [PREP_LINE]"
  unfolding exec_aline_body_def
  using exec_aline_tail_prep_calls [of env bf "upd_mr (\<lambda>m. m\<lparr>mr_section := SECTION_TAIL\<rparr>) s"]
  by (simp add: split_def Let_def exec_aline_segment_prep_calls split: option.splits)

lemma exec_aline_head_prep_calls:
  "prep_calls (snd (exec_aline_head env bf s)) = prep_calls s
   \<or> prep_calls (snd (exec_aline_head env bf s)) = prep_calls s @ [PREP_LINE]"
  unfolding exec_aline_head_def
  using exec_aline_body_prep_calls [of env bf "upd_mr (\<lambda>m. m\<lparr>mr_section := SECTION_BODY\<rparr>) s"]
  by (simp add: split_def Let_def exec_aline_segment_prep_calls split: option.splits)

lemma exec_aline_dispatch_prep_calls:
  "prep_calls (snd (exec_aline_dispatch env bf s)) = prep_calls s
   \<or> prep_calls (snd (exec_aline_dispatch env bf s)) = prep_calls s @ [PREP_LINE]"
  unfolding exec_aline_dispatch_def
  using exec_aline_head_prep_calls [of env bf s] exec_aline_body_prep_calls [of env bf s]
    exec_aline_tail_prep_calls [of env bf s]
  by (cases "mr_section (mr s)") simp_all


lemma feedhold_parts_prep_calls [simp]:
  "prep_calls (feedhold_tail env bf s) = prep_calls s"
  "prep_calls (feedhold_fit env bf s) = prep_calls s"
  "prep_calls (exec_aline_new_block env bf s) = prep_calls s"
  by (simp_all add: feedhold_tail_def feedhold_fit_def exec_aline_new_block_def Let_def)

lemma feedhold_stopped_prep_calls:
  "externals_prepare_nothing env \<Longrightarrow> prep_calls (feedhold_stopped env bf s) = prep_calls s"
  by (simp add: feedhold_stopped_def externals_prepare_nothing_def Let_def)

lemma exec_aline_feedhold_prep_calls:
  "externals_prepare_nothing env
     \<Longrightarrow> prep_calls (snd (exec_aline_feedhold env bf s)) = prep_calls s"
  by (simp add: exec_aline_feedhold_def feedhold_stopped_prep_calls Let_def)

lemma exec_aline_hold_prep_calls:
  "externals_prepare_nothing env
     \<Longrightarrow> prep_calls (snd (exec_aline_hold env bf s)) = prep_calls s"
  by (simp add: exec_aline_hold_def exec_aline_feedhold_prep_calls split_def Let_def)

lemma exec_aline_states_prep_calls:
  "externals_prepare_nothing env
     \<Longrightarrow> prep_calls (exec_aline_states env bf status s) = prep_calls s"
  by (simp add: exec_aline_states_def externals_prepare_nothing_def Let_def)

lemma exec_aline_finish_prep_calls:
  "externals_prepare_nothing env
     \<Longrightarrow> prep_calls (exec_aline_finish env bf s) = prep_calls s"
  by (simp add: exec_aline_finish_def externals_prepare_nothing_def Let_def split_def)

lemma mp_exec_aline_prep_calls:
  assumes "externals_prepare_nothing env"
  shows "prep_calls (snd (mp_exec_aline env bf s)) = prep_calls s
         \<or> prep_calls (snd (mp_exec_aline env bf s)) = prep_calls s @ [PREP_LINE]"
proof -
  define s1 where "s1 = (if mr_block_state (mr s) = BLOCK_INACTIVE
                         then exec_aline_new_block env bf s else s)"
  define s2 where "s2 = snd (exec_aline_hold env bf s1)"
  define s3 where "s3 = upd_mr (\<lambda>m. m\<lparr>mr_block_state := BLOCK_ACTIVE\<rparr>) s2"
  have p1: "prep_calls s1 = prep_calls s" by (simp add: s1_def)
  have p2: "prep_calls s2 = prep_calls s"
    using exec_aline_hold_prep_calls [OF assms, of bf s1] p1 by (simp add: s2_def)
  have p3: "prep_calls s3 = prep_calls s" using p2 by (simp add: s3_def)
  have d: "prep_calls (snd (exec_aline_dispatch env bf s3)) = prep_calls s
           \<or> prep_calls (snd (exec_aline_dispatch env bf s3)) = prep_calls s @ [PREP_LINE]"
    using exec_aline_dispatch_prep_calls [of env bf s3] p3 by simp
  show ?thesis
    unfolding mp_exec_aline_def Let_def s1_def [symmetric]
    using d p2
    by (simp add: split_def s2_def [symmetric] s3_def [symmetric]
          exec_aline_states_prep_calls [OF assms] exec_aline_finish_prep_calls [OF assms]
          split: option.splits)
qed

lemma exec_move_aline_prep_calls:
  assumes "externals_prepare_nothing env"
  shows "prep_calls (snd (exec_move_aline env bf s)) = prep_calls s
         \<or> (fst (exec_move_aline env bf s) \<noteq> None
             \<and> prep_calls (snd (exec_move_aline env bf s)) = prep_calls s @ [PREP_NULL])"
  using assms
  by (simp add: exec_move_aline_def externals_prepare_nothing_def st_prep_null_def
        split_def Let_def split: option.splits)

lemma st_prep_out_of_band_dwell_prep_calls:
  "prep_calls (st_prep_out_of_band_dwell env us s) = prep_calls s
   \<or> prep_calls (st_prep_out_of_band_dwell env us s) = prep_calls s @ [PREP_DWELL]"
  by (simp add: st_prep_out_of_band_dwell_def st_prep_dwell_def st_request_load_move_def
        load_move_def st_request_exec_move_def st_runtime_isbusy_def Let_def)

text \<open>
  Claim C8. One call of \<open>mp_exec_move\<close> adds at most one call to the list of the calls that
  hand a segment, a dwell, a command or nothing to the loader, whatever section the
  runtime is in and whether or not the head passes the call on to the body and the tail.
  The functions from outside the sources at hand are assumed to hand nothing over, and a
  callback of a command or dwell at most once.
\<close>

theorem mp_exec_move_prepares_at_most_once:
  assumes "externals_prepare_nothing env"
  shows "prep_calls (snd (mp_exec_move env s)) = prep_calls s
         \<or> (\<exists>c. prep_calls (snd (mp_exec_move env s)) = prep_calls s @ [c])"
proof (cases "out_of_band_dwell_flag (mr s)")
  case True
  then show ?thesis
    using st_prep_out_of_band_dwell_prep_calls
            [of env "out_of_band_dwell_seconds (mr s) * Fin 1000000"
                "upd_mr (\<lambda>m. m\<lparr>out_of_band_dwell_flag := False\<rparr>) s"]
    by (auto simp: mp_exec_move_def Let_def)
next
  case False
  show ?thesis
  proof (cases "mp_get_run_buffer env s")
    case None
    then show ?thesis using False by (simp add: mp_exec_move_def st_prep_null_def)
  next
    case (Some bf)
    define r where "r = (if block_type (bufs s ! bf) = BLOCK_TYPE_ALINE
                         then exec_move_aline env bf s else (None, s))"
    have r: "prep_calls (snd r) = prep_calls s
             \<or> (fst r \<noteq> None \<and> prep_calls (snd r) = prep_calls s @ [PREP_NULL])"
      using exec_move_aline_prep_calls [OF assms, of bf s] by (simp add: r_def)
    have m: "mp_exec_move env s =
               (case fst r of
                  Some status \<Rightarrow> (status, snd r)
                | None \<Rightarrow>
                    (case bf_func (bufs (snd r) ! bf) of
                       BF_NULL \<Rightarrow> cm_panic STAT_INTERNAL_ERROR (snd r)
                     | BF_MP_EXEC_ALINE \<Rightarrow> mp_exec_aline env bf (snd r)
                     | BF_CALLBACK n \<Rightarrow> bf_callback env n bf (snd r)))"
      using False Some
      by (cases "block_type (bufs s ! bf) = BLOCK_TYPE_ALINE")
         (simp_all add: mp_exec_move_def r_def split_def Let_def
            split: option.splits bf_func_t.splits)
    show ?thesis
    proof (cases "fst r")
      case (Some status)
      then show ?thesis using r m by auto
    next
      case None
      then have p: "prep_calls (snd r) = prep_calls s" using r by simp
      show ?thesis
      proof (cases "bf_func (bufs (snd r) ! bf)")
        case BF_NULL
        then show ?thesis using None m p by simp
      next
        case BF_MP_EXEC_ALINE
        then show ?thesis
          using None m p mp_exec_aline_prep_calls [OF assms, of bf "snd r"] by auto
      next
        case (BF_CALLBACK n)
        have "prep_calls (snd (bf_callback env n bf (snd r))) = prep_calls (snd r)
              \<or> (\<exists>c. prep_calls (snd (bf_callback env n bf (snd r))) = prep_calls (snd r) @ [c])"
          using assms unfolding externals_prepare_nothing_def by blast
        then show ?thesis using None m p BF_CALLBACK by simp
      qed
    qed
  qed
qed

text \<open>
  The machine whose run block is all tail while the runtime stands at the start of the
  head: the head passes the call on to the body and the body to the tail, and the call
  prepares one line.
\<close>

theorem mp_exec_move_prepares_at_most_once_witness:
  "prep_calls tail_only_machine = []
   \<and> mr_section (mr tail_only_machine) = SECTION_HEAD
   \<and> prep_calls (snd (mp_exec_move demo_env tail_only_machine)) = [PREP_LINE]"
proof -
  have e: "externals_prepare_nothing demo_env"
    by (simp add: externals_prepare_nothing_def demo_env_def demo_free_run_buffer_def Let_def)
  have a: "prep_calls tail_only_machine = []" by code_simp
  have b: "mr_section (mr tail_only_machine) = SECTION_HEAD" by code_simp
  have c: "prep_calls (snd (mp_exec_move demo_env tail_only_machine)) = [PREP_LINE]"
    by code_simp
  show ?thesis
    using mp_exec_move_prepares_at_most_once [OF e, of tail_only_machine] a b c by simp
qed

subsection \<open>The states of the buffers\<close>







lemma pool_step_cong: "buffer_states t' = buffer_states t \<Longrightarrow> pool_step s t \<Longrightarrow> pool_step s t'"
  by (simp add: pool_step_def)

lemma buffer_states_upd [simp]:
  "buffer_states (upd_mr f s) = buffer_states s"
  "buffer_states (upd_run_block h s) = buffer_states s"
  "buffer_states (st_request_forward_plan s) = buffer_states s"
  "buffer_states (snd (cm_panic st s)) = buffer_states s"
  "buffer_states (st_prep_null s) = buffer_states s"
  by (simp_all add: buffer_states_def upd_mr_def upd_run_block_def
        st_request_forward_plan_def cm_panic_def st_prep_null_def)

lemma buffer_states_upd_buf:
  "(\<And>b. buffer_state (f b) = buffer_state b)
     \<Longrightarrow> buffer_states (upd_buf i f s) = buffer_states s"
proof -
  assume f: "\<And>b. buffer_state (f b) = buffer_state b"
  have "buffer_state ((bufs s)[i := f (bufs s ! i)] ! k) = buffer_state (bufs s ! k)"
    if "k < length (bufs s)" for k
    using that f by (cases "k = i") simp_all
  then show ?thesis
    by (simp add: buffer_states_def upd_buf_def list_eq_iff_nth_eq)
qed

lemma buffer_states_cong: "bufs t = bufs s \<Longrightarrow> buffer_states t = buffer_states s"
  by (simp add: buffer_states_def)

lemma bufs_upd [simp]:
  "bufs (upd_mr f s) = bufs s"
  "bufs (upd_run_block h s) = bufs s"
  by (simp_all add: upd_mr_def upd_run_block_def)

lemma exec_aline_segment_buffer_states [simp]:
  "buffer_states (snd (exec_aline_segment env s)) = buffer_states s"
  by (simp add: exec_aline_segment_def Let_def split_def buffer_states_def st_prep_line_frame)

lemma new_section_buffer_states [simp]:
  "buffer_states (snd (tail_new_section env s)) = buffer_states s"
  "buffer_states (snd (body_new_section env s)) = buffer_states s"
  "buffer_states (snd (head_new_section env s)) = buffer_states s"
  by (simp_all add: tail_new_section_def body_new_section_def head_new_section_def Let_def
        buffer_states_def)

lemma exec_aline_tail_buffer_states [simp]:
  "buffer_states (snd (exec_aline_tail env bf s)) = buffer_states s"
  unfolding exec_aline_tail_def
  by (simp add: split_def Let_def buffer_states_upd_buf split: option.splits)

lemma exec_aline_body_buffer_states [simp]:
  "buffer_states (snd (exec_aline_body env bf s)) = buffer_states s"
  unfolding exec_aline_body_def
  by (simp add: split_def Let_def split: option.splits)

lemma exec_aline_head_buffer_states [simp]:
  "buffer_states (snd (exec_aline_head env bf s)) = buffer_states s"
  unfolding exec_aline_head_def
  by (simp add: split_def Let_def split: option.splits)

lemma exec_aline_dispatch_buffer_states [simp]:
  "buffer_states (snd (exec_aline_dispatch env bf s)) = buffer_states s"
  unfolding exec_aline_dispatch_def by (cases "mr_section (mr s)") simp_all




lemma buffer_states_fields [simp]:
  "buffer_states (s\<lparr>cm := c\<rparr>) = buffer_states s"
  "buffer_states (s\<lparr>mr := m\<rparr>) = buffer_states s"
  "buffer_states (s\<lparr>mp_position := p\<rparr>) = buffer_states s"
  "buffer_states (s\<lparr>run_time_remaining := t\<rparr>) = buffer_states s"
  by (simp_all add: buffer_states_def)

lemma feedhold_tail_buffer_states [simp]:
  "buffer_states (feedhold_tail env bf s) = buffer_states s"
  by (simp add: feedhold_tail_def Let_def)

lemma feedhold_fit_buffer_states [simp]:
  "buffer_states (feedhold_fit env bf s) = buffer_states s"
  by (simp add: feedhold_fit_def Let_def buffer_states_upd_buf)

lemma exec_aline_new_block_buffer_states [simp]:
  "buffer_states (exec_aline_new_block env bf s) = buffer_states s"
  by (simp add: exec_aline_new_block_def Let_def buffer_states_upd_buf)

















end
